theory Spec2Isabelle
  imports Main
begin

section \<open>Text mode of the JSON editor: a shallow embedding of TextMode.svelte\<close>

text \<open>
  The component keeps a canonical \<open>text\<close>, mirrors it into a CodeMirror view, and
  reports changes to the host through \<open>onChange\<close>. The script block of
  \<^verbatim>\<open>src/lib/components/modes/textmode/TextMode.svelte\<close> is translated function
  by function. The component's variables become one record that every function takes
  and returns. Exceptions are values of a sum type. The functions the component imports
  from packages (\<open>JSON.parse\<close>, \<open>JSON.stringify\<close>, \<open>jsonrepair\<close>,
  \<open>immutableJSONPatch\<close>, \<open>revertJSONPatch\<close>, the normalization functions, the
  text locator) and the host's callbacks are fields of an environment record.
\<close>

subsection \<open>Values exchanged with the host\<close>

datatype error = SyntaxError string | JSONRepairError string | PatchError string
  | HostCallbackError string | TypeError string

type_synonym json_path = "string list"

datatype ValidationSeverity = info | warning | error

record ValidationError =
  ve_path :: json_path
  ve_message :: string
  ve_severity :: ValidationSeverity

record ParseError =
  pe_position :: "nat option"
  pe_line :: "nat option"
  pe_column :: "nat option"
  pe_message :: string

text \<open>
  Modelled from the spec: the type \<open>ContentErrors\<close> of \<^verbatim>\<open>types.ts\<close> and the two
  guards of \<^verbatim>\<open>typeguards.ts\<close>, neither of which is among the sources. Section 3 of
  the specification makes the validation outcome a tagged variant: a parse error with its
  repairable flag, or a list of semantic errors (the empty list when the text is valid).
\<close>

datatype ContentErrors =
  ContentParseError ParseError bool
  | ContentValidationErrors "ValidationError list"

fun isContentParseError :: "ContentErrors \<Rightarrow> bool" where
  "isContentParseError (ContentParseError parseError isRepairable) = True"
| "isContentParseError (ContentValidationErrors validationErrors) = False"

fun isContentValidationErrors :: "ContentErrors \<Rightarrow> bool" where
  "isContentValidationErrors (ContentParseError parseError isRepairable) = False"
| "isContentValidationErrors (ContentValidationErrors validationErrors) = True"

datatype repair_action = AutoRepair

record RichValidationError =
  r_path :: "json_path option"
  r_line :: "nat option"
  r_column :: "nat option"
  r_from :: nat
  r_to :: nat
  r_message :: string
  r_severity :: ValidationSeverity
  r_actions :: "repair_action list option"

record Diagnostic =
  d_from :: nat
  d_to :: nat
  d_message :: string
  d_actions :: "repair_action list option"
  d_severity :: ValidationSeverity

record text_location =
  loc_line :: "nat option"
  loc_column :: "nat option"
  loc_from :: nat
  loc_to :: nat

text \<open>
  One call of the host's \<open>onChange\<close>: \<open>onChange({text}, {text: previousText},
  {contentErrors, patchResult: null})\<close>. The third argument's \<open>patchResult\<close> is the
  constant \<open>null\<close> and is left out.
\<close>

record change_event =
  current :: string
  previous :: string
  contentErrors :: ContentErrors

datatype indentation = IndentNumber int | IndentString string

datatype json_status = JSON_STATUS_VALID | JSON_STATUS_REPAIRABLE | JSON_STATUS_INVALID

type_synonym validator_ref = nat

subsection \<open>The environment: imported functions, constants and host callbacks\<close>

text \<open>
  \<open>'j\<close> is the type of parsed JSON values and \<open>'op\<close> the type of JSON patch operations.
  A function that can throw returns \<open>error + _\<close>. A validator is a function object of
  the host; \<open>memoizeOne\<close> compares it by reference, so the component state holds a
  reference and \<open>validators\<close> maps each reference to the function behind it.
  \<open>onSortModal\<close> and \<open>onTransformModal\<close> are the host's modal callbacks: they return
  \<open>Some e\<close> when the call throws \<open>e\<close>. \<open>findTextLocation\<close> returns \<open>None\<close> when
  it returns no location object (\<open>null\<close>).
\<close>

record ('j, 'op) env =
  JSON_parse :: "string \<Rightarrow> error + 'j"
  JSON_stringify :: "'j \<Rightarrow> indentation option \<Rightarrow> string"
  jsonrepair :: "string \<Rightarrow> error + string"
  immutableJSONPatch :: "'j \<Rightarrow> 'op list \<Rightarrow> error + 'j"
  revertJSONPatch :: "'j \<Rightarrow> 'op list \<Rightarrow> error + 'op list"
  escapeValue :: "bool \<Rightarrow> string \<Rightarrow> string"
  unescapeValue :: "bool \<Rightarrow> string \<Rightarrow> string"
  findTextLocation :: "string \<Rightarrow> json_path \<Rightarrow> text_location option"
  normalizeJsonParseError :: "string \<Rightarrow> error \<Rightarrow> ParseError"
  validators :: "validator_ref \<Rightarrow> 'j \<Rightarrow> ValidationError list"
  MAX_DOCUMENT_SIZE_TEXT_MODE :: nat
  onSortModal :: "'j \<Rightarrow> json_path \<Rightarrow> error option"
  onTransformModal :: "'j \<Rightarrow> json_path \<Rightarrow> error option"

subsection \<open>The component state\<close>

text \<open>
  The CodeMirror view, as far as the component reads it: its document and the depths of
  its undo and redo history.
\<close>

record view =
  doc :: string
  undoDepth :: nat
  redoDepth :: nat

datatype 'j modal_call = SortModal 'j json_path | TransformModal 'j json_path bool

text \<open>
  The props and the \<open>let\<close> variables of the script block keep their names. Five fields
  hold what the source keeps elsewhere:
  \<^item> \<open>pending\<close>: the timer of \<open>onChangeCodeMirrorValueDebounced\<close> is armed with a
    trailing call (lodash \<open>debounce\<close>);
  \<^item> \<open>memo\<close>: the last arguments and result of \<open>memoizedValidateText\<close>
    (\<open>memoizeOne\<close>), and \<open>validateText_calls\<close>, which counts the runs of the
    underlying \<open>validateText\<close>;
  \<^item> \<open>events\<close>, \<open>reported\<close> and \<open>modal_calls\<close>: the calls of the host's
    \<open>onChange\<close>, \<open>onError\<close> and modal callbacks, in order.
  \<open>onChange\<close> is \<open>True\<close> when the host passed a callback (the prop's default is
  \<open>null\<close>). \<open>codeMirrorView\<close> is \<open>None\<close> before the view is created.
\<close>

record 'j state =
  "text" :: string
  readOnly :: bool
  indentation :: indentation
  escapeUnicodeCharacters :: bool
  validator :: "validator_ref option"
  onChange :: bool
  codeMirrorView :: "view option"
  codeMirrorText :: "string option"
  onChangeDisabled :: bool
  acceptTooLarge :: bool
  validationErrors :: "ValidationError list"
  canUndo :: bool
  canRedo :: bool
  modalOpen :: bool
  jsonStatus :: json_status
  jsonParseError :: "ParseError option"
  pending :: bool
  memo :: "(string \<times> validator_ref option \<times> ContentErrors) option"
  validateText_calls :: nat
  events :: "change_event list"
  reported :: "error list"
  modal_calls :: "'j modal_call list"

text \<open>The reactive declarations \<open>$: tooLarge\<close> and \<open>$: textEditorDisabled\<close>.\<close>

definition tooLarge :: "('j, 'op) env \<Rightarrow> 'j state \<Rightarrow> bool" where
  "tooLarge E st \<longleftrightarrow> text st \<noteq> [] \<and> length (text st) > MAX_DOCUMENT_SIZE_TEXT_MODE E"

definition textEditorDisabled :: "('j, 'op) env \<Rightarrow> 'j state \<Rightarrow> bool" where
  "textEditorDisabled E st \<longleftrightarrow> tooLarge E st \<and> \<not> acceptTooLarge st"

text \<open>
  The component as the script block initialises it, with the props \<open>text\<close> and
  \<open>onChange\<close> as given and every other prop at its default.
\<close>

definition init :: "string \<Rightarrow> bool \<Rightarrow> 'j state" where
  "init t listening =
     \<lparr>text = t,
      readOnly = False,
      indentation = IndentNumber 2,
      escapeUnicodeCharacters = False,
      validator = None,
      onChange = listening,
      codeMirrorView = None,
      codeMirrorText = None,
      onChangeDisabled = False,
      acceptTooLarge = False,
      validationErrors = [],
      canUndo = False,
      canRedo = False,
      modalOpen = False,
      jsonStatus = JSON_STATUS_VALID,
      jsonParseError = None,
      pending = False,
      memo = None,
      validateText_calls = 0,
      events = [],
      reported = [],
      modal_calls = []\<rparr>"

subsection \<open>Validation\<close>

text \<open>
  Modelled from the spec: \<open>validateText\<close> of \<^verbatim>\<open>logic/validation.ts\<close>, which is not
  among the sources. Section 4.3: parse the text; on success run the validator, if one
  is supplied, and collect its list of errors; on failure capture the parser's message
  and position and determine repairability by trying the repair function and discarding
  its result.
\<close>

definition validateText ::
  "('j, 'op) env \<Rightarrow> string \<Rightarrow> validator_ref option \<Rightarrow> ContentErrors" where
  "validateText E t v =
     (case JSON_parse E t of
        Inr json \<Rightarrow>
          (case v of
             None \<Rightarrow> ContentValidationErrors []
           | Some r \<Rightarrow> ContentValidationErrors (validators E r json))
      | Inl err \<Rightarrow>
          ContentParseError (normalizeJsonParseError E t err)
            (case jsonrepair E t of Inr repaired \<Rightarrow> True | Inl e \<Rightarrow> False))"

text \<open>
  \<open>memoizedValidateText = memoizeOne(validateText)\<close>: the last call's arguments and
  result are kept; a call with the same arguments (compared with \<open>===\<close>) returns the
  kept result, any other call runs \<open>validateText\<close> and replaces what is kept.
\<close>

definition memoizedValidateText ::
  "('j, 'op) env \<Rightarrow> string \<Rightarrow> validator_ref option \<Rightarrow> 'j state \<Rightarrow> ContentErrors \<times> 'j state" where
  "memoizedValidateText E t v st =
     (case memo st of
        Some (t', v', r) \<Rightarrow>
          if t' = t \<and> v' = v then (r, st)
          else (validateText E t v,
                st\<lparr>memo := Some (t, v, validateText E t v),
                   validateText_calls := Suc (validateText_calls st)\<rparr>)
      | None \<Rightarrow>
          (validateText E t v,
           st\<lparr>memo := Some (t, v, validateText E t v),
              validateText_calls := Suc (validateText_calls st)\<rparr>))"

subsection \<open>Reading the view\<close>

definition getCodeMirrorValue :: "('j, 'op) env \<Rightarrow> 'j state \<Rightarrow> string" where
  "getCodeMirrorValue E st =
     (case codeMirrorView st of
        Some v \<Rightarrow> unescapeValue E (escapeUnicodeCharacters st) (doc v)
      | None \<Rightarrow> [])"

definition updateCanUndoRedo :: "'j state \<Rightarrow> 'j state" where
  "updateCanUndoRedo st =
     (case codeMirrorView st of
        Some v \<Rightarrow> st\<lparr>canUndo := undoDepth v > 0, canRedo := redoDepth v > 0\<rparr>
      | None \<Rightarrow> st)"

subsection \<open>The change path: debounce, validate, emit\<close>

text \<open>
  \<open>validate\<close> flushes the debounced callback, the callback is
  \<open>onChangeCodeMirrorValue\<close>, that function calls \<open>emitOnChange\<close>, and
  \<open>emitOnChange\<close> evaluates \<open>validate()\<close> as an argument of \<open>onChange\<close>: the four
  functions are mutually recursive, as in the source. \<open>flush\<close> is lodash's
  \<open>debounced.flush\<close>: with no armed timer it does nothing, otherwise it disarms the
  timer and invokes the callback. The recursion ends because the timer is disarmed
  before the callback runs.
\<close>

function validate :: "('j, 'op) env \<Rightarrow> 'j state \<Rightarrow> ContentErrors \<times> 'j state"
  and flush :: "('j, 'op) env \<Rightarrow> 'j state \<Rightarrow> 'j state"
  and onChangeCodeMirrorValue :: "('j, 'op) env \<Rightarrow> 'j state \<Rightarrow> 'j state"
  and emitOnChange :: "('j, 'op) env \<Rightarrow> string \<Rightarrow> string \<Rightarrow> 'j state \<Rightarrow> 'j state"
where
  "validate E st =
     (let st1 = flush E st;
          (contentErrors, st2) = memoizedValidateText E (text st1) (validator st1) st1
      in case contentErrors of
           ContentParseError parseError isRepairable \<Rightarrow>
             (contentErrors,
              st2\<lparr>jsonStatus :=
                     (if isRepairable then JSON_STATUS_REPAIRABLE else JSON_STATUS_INVALID),
                  jsonParseError := Some parseError,
                  validationErrors := []\<rparr>)
         | ContentValidationErrors errs \<Rightarrow>
             (contentErrors,
              st2\<lparr>jsonStatus := JSON_STATUS_VALID,
                  jsonParseError := None,
                  validationErrors := errs\<rparr>))"
| "flush E st =
     (if pending st then onChangeCodeMirrorValue E (st\<lparr>pending := False\<rparr>) else st)"
| "onChangeCodeMirrorValue E st =
     (if onChangeDisabled st \<or> codeMirrorView st = None then st
      else
        let value = getCodeMirrorValue E st;
            st1 = st\<lparr>codeMirrorText := Some value\<rparr>
        in if value \<noteq> text st1 then
             let previousText = value;
                 st2 = st1\<lparr>text := value\<rparr>;
                 st3 = updateCanUndoRedo st2
             in emitOnChange E (text st3) previousText st3
           else st1)"
| "emitOnChange E t previousText st =
     (if onChange st then
        let (errs, st1) = validate E st
        in st1\<lparr>events := events st1 @
             [\<lparr>current = t, previous = previousText, contentErrors = errs\<rparr>]\<rparr>
      else st)"
  by pat_completeness auto

termination
  by (relation "measure (\<lambda>x. case x of
        Inl (Inl (E, st)) \<Rightarrow> (if pending st then 4 else 0) + 1
      | Inl (Inr (E, st)) \<Rightarrow> (if pending st then 4 else 0)
      | Inr (Inl (E, st)) \<Rightarrow> (if pending st then 4 else 0) + 3
      | Inr (Inr (E, t, p, st)) \<Rightarrow> (if pending st then 4 else 0) + 2)")
    (auto simp: updateCanUndoRedo_def split: option.split)

declare validate.simps [simp del] flush.simps [simp del]
  onChangeCodeMirrorValue.simps [simp del] emitOnChange.simps [simp del]

text \<open>
  The view's update listener, \<open>if (update.docChanged) onChangeCodeMirrorValueDebounced()\<close>:
  calling the debounced function arms the timer. When the timer fires, lodash runs the
  same trailing edge as \<open>flush\<close>.
\<close>

definition onChangeCodeMirrorValueDebounced :: "'j state \<Rightarrow> 'j state" where
  "onChangeCodeMirrorValueDebounced st = st\<lparr>pending := True\<rparr>"

definition timerExpired :: "('j, 'op) env \<Rightarrow> 'j state \<Rightarrow> 'j state" where
  "timerExpired E st = flush E st"

text \<open>
  A transaction of the view that leaves \<open>d\<close> as its document: the user typing, or a
  dispatch by the component. \<open>docChanged\<close> is the flag the view passes to the listener.
\<close>

definition transaction :: "string \<Rightarrow> bool \<Rightarrow> 'j state \<Rightarrow> 'j state" where
  "transaction d docChanged st =
     (case codeMirrorView st of
        None \<Rightarrow> st
      | Some v \<Rightarrow>
          let st1 = st\<lparr>codeMirrorView := Some (v\<lparr>doc := d\<rparr>)\<rparr>
          in if docChanged then onChangeCodeMirrorValueDebounced st1 else st1)"

text \<open>
  \<open>setCodeMirrorValue\<close> replaces the whole document by the escaped text. CodeMirror
  drops a change that deletes nothing and inserts nothing, so the transaction changes
  the document unless both the old document and the inserted text are empty.
\<close>

definition setCodeMirrorValue ::
  "('j, 'op) env \<Rightarrow> string \<Rightarrow> bool \<Rightarrow> 'j state \<Rightarrow> 'j state" where
  "setCodeMirrorValue E t force st =
     (if textEditorDisabled E st \<and> \<not> force then st
      else
        (case codeMirrorView st of
           None \<Rightarrow> st
         | Some v \<Rightarrow>
             if Some t \<noteq> codeMirrorText st then
               let st1 = st\<lparr>codeMirrorText := Some t\<rparr>;
                   inserted = escapeValue E (escapeUnicodeCharacters st) t;
                   st2 = transaction inserted (\<not> (doc v = [] \<and> inserted = [])) st1
               in updateCanUndoRedo st2
             else st))"

text \<open>
  The reactive statement \<open>$: setCodeMirrorValue(text)\<close>. Svelte runs it when the
  component updates, after the function that assigned \<open>text\<close> has returned: it is a
  step of its own, not a part of the functions that assign \<open>text\<close>.
\<close>

definition reactive_setCodeMirrorValue :: "('j, 'op) env \<Rightarrow> 'j state \<Rightarrow> 'j state" where
  "reactive_setCodeMirrorValue E st = setCodeMirrorValue E (text st) False st"

text \<open>\<open>onMount\<close>: the view is created with the text, or empty when the editor is disabled.\<close>

definition createCodeMirrorView :: "string \<Rightarrow> 'j state \<Rightarrow> 'j state" where
  "createCodeMirrorView initialText st =
     st\<lparr>codeMirrorView := Some \<lparr>doc = initialText, undoDepth = 0, redoDepth = 0\<rparr>\<rparr>"

definition onMount :: "('j, 'op) env \<Rightarrow> 'j state \<Rightarrow> 'j state" where
  "onMount E st =
     createCodeMirrorView (if \<not> textEditorDisabled E st then text st else []) st"

definition handleAcceptTooLarge :: "('j, 'op) env \<Rightarrow> 'j state \<Rightarrow> 'j state" where
  "handleAcceptTooLarge E st =
     (let st1 = st\<lparr>acceptTooLarge := True\<rparr> in setCodeMirrorValue E (text st1) True st1)"

definition cancelLoadTooLarge :: "('j, 'op) env \<Rightarrow> 'j state \<Rightarrow> 'j state" where
  "cancelLoadTooLarge E st = onChangeCodeMirrorValue E st"

text \<open>
  The exported \<open>refresh\<close> inserts a space at the end of the document and removes it
  again: two transactions that change the document. It reads \<open>codeMirrorView.state\<close>
  without a test, which throws when the view does not exist.
\<close>

definition refresh :: "'j state \<Rightarrow> error + 'j state" where
  "refresh st =
     (case codeMirrorView st of
        None \<Rightarrow> Inl (TypeError ''codeMirrorView is undefined'')
      | Some v \<Rightarrow> Inr (transaction (doc v) True (transaction (doc v @ '' '') True st)))"

subsection \<open>The linter\<close>

text \<open>
  \<open>toRichValidationError\<close> destructures the result of \<open>findTextLocation\<close> without a
  test: when that result is \<open>null\<close> the destructuring throws a \<open>TypeError\<close>.
\<close>

definition toRichValidationError ::
  "('j, 'op) env \<Rightarrow> 'j state \<Rightarrow> ValidationError \<Rightarrow> error + RichValidationError" where
  "toRichValidationError E st validationError =
     (case findTextLocation E (text st) (ve_path validationError) of
        None \<Rightarrow> Inl (TypeError ''Cannot destructure property line of null'')
      | Some loc \<Rightarrow>
          Inr \<lparr>r_path = Some (ve_path validationError),
               r_line = loc_line loc,
               r_column = loc_column loc,
               r_from = loc_from loc,
               r_to = loc_to loc,
               r_message = ve_message validationError,
               r_severity = warning,
               r_actions = Some []\<rparr>)"

text \<open>\<open>position || 0\<close> is \<open>0\<close> when the position is missing.\<close>

definition toRichParseError :: "'j state \<Rightarrow> ParseError \<Rightarrow> bool \<Rightarrow> RichValidationError" where
  "toRichParseError st parseError isRepairable =
     \<lparr>r_path = None,
      r_line = pe_line parseError,
      r_column = pe_column parseError,
      r_from = (case pe_position parseError of Some p \<Rightarrow> p | None \<Rightarrow> 0),
      r_to = (case pe_position parseError of Some p \<Rightarrow> p | None \<Rightarrow> 0),
      r_message = pe_message parseError,
      r_severity = error,
      r_actions = (if isRepairable \<and> \<not> readOnly st then Some [AutoRepair] else None)\<rparr>"

definition toDiagnostic :: "RichValidationError \<Rightarrow> Diagnostic" where
  "toDiagnostic e =
     \<lparr>d_from = r_from e, d_to = r_to e, d_message = r_message e,
      d_actions = r_actions e, d_severity = r_severity e\<rparr>"

text \<open>
  \<open>Array.prototype.map\<close> with a callback that can throw: the first exception ends the
  traversal and is the outcome of the call.
\<close>

fun map_throwing :: "('a \<Rightarrow> error + 'b) \<Rightarrow> 'a list \<Rightarrow> error + 'b list" where
  "map_throwing f [] = Inr []"
| "map_throwing f (x # xs) =
     (case f x of
        Inl e \<Rightarrow> Inl e
      | Inr y \<Rightarrow> (case map_throwing f xs of Inl e \<Rightarrow> Inl e | Inr ys \<Rightarrow> Inr (y # ys)))"

text \<open>
  The linter callback returns the diagnostics, or throws what \<open>toRichValidationError\<close>
  throws: nothing in it catches an exception.
\<close>

definition linterCallback ::
  "('j, 'op) env \<Rightarrow> 'j state \<Rightarrow> (error + Diagnostic list) \<times> 'j state" where
  "linterCallback E st =
     (let (contentErrors, st1) = validate E st
      in case contentErrors of
           ContentParseError parseError isRepairable \<Rightarrow>
             (Inr [toDiagnostic (toRichParseError st1 parseError isRepairable)], st1)
         | ContentValidationErrors errs \<Rightarrow>
             (case map_throwing (toRichValidationError E st1) errs of
                Inl e \<Rightarrow> (Inl e, st1)
              | Inr rich \<Rightarrow> (Inr (map toDiagnostic rich), st1)))"

subsection \<open>The commands\<close>

definition onError :: "error \<Rightarrow> 'j state \<Rightarrow> 'j state" where
  "onError err st = st\<lparr>reported := reported st @ [err]\<rparr>"

record ('j, 'op) JSONPatchResult =
  result_json :: 'j
  result_previousJson :: 'j
  result_undo :: "'op list"
  result_redo :: "'op list"

text \<open>
  \<open>patch\<close> has no \<open>try\<close>: an exception of \<open>JSON.parse\<close>, \<open>immutableJSONPatch\<close> or
  \<open>revertJSONPatch\<close> leaves the function before anything is assigned.
\<close>

definition patch ::
  "('j, 'op) env \<Rightarrow> 'op list \<Rightarrow> 'j state \<Rightarrow> error + (('j, 'op) JSONPatchResult \<times> 'j state)" where
  "patch E operations st =
     (let previousText = text st
      in case JSON_parse E (text st) of
           Inl err \<Rightarrow> Inl err
         | Inr previousJson \<Rightarrow>
             (case immutableJSONPatch E previousJson operations of
                Inl err \<Rightarrow> Inl err
              | Inr updatedJson \<Rightarrow>
                  (case revertJSONPatch E previousJson operations of
                     Inl err \<Rightarrow> Inl err
                   | Inr undo \<Rightarrow>
                       let st1 = st\<lparr>text := JSON_stringify E updatedJson (Some (indentation st))\<rparr>;
                           st2 = (if text st1 \<noteq> previousText
                                  then emitOnChange E (text st1) previousText st1 else st1)
                       in Inr (\<lparr>result_json = updatedJson,
                                result_previousJson = previousJson,
                                result_undo = undo,
                                result_redo = operations\<rparr>, st2))))"

definition handleFormat :: "('j, 'op) env \<Rightarrow> 'j state \<Rightarrow> 'j state" where
  "handleFormat E st =
     (if readOnly st then st
      else
        let previousText = text st
        in case JSON_parse E (text st) of
             Inl err \<Rightarrow> onError err st
           | Inr json \<Rightarrow>
               let st1 = st\<lparr>text := JSON_stringify E json (Some (indentation st))\<rparr>
               in if text st1 \<noteq> previousText
                  then emitOnChange E (text st1) previousText st1 else st1)"

definition handleCompact :: "('j, 'op) env \<Rightarrow> 'j state \<Rightarrow> 'j state" where
  "handleCompact E st =
     (if readOnly st then st
      else
        let previousText = text st
        in case JSON_parse E (text st) of
             Inl err \<Rightarrow> onError err st
           | Inr json \<Rightarrow>
               let st1 = st\<lparr>text := JSON_stringify E json None\<rparr>
               in if text st1 \<noteq> previousText
                  then emitOnChange E (text st1) previousText st1 else st1)"

definition handleRepair :: "('j, 'op) env \<Rightarrow> 'j state \<Rightarrow> 'j state" where
  "handleRepair E st =
     (if readOnly st then st
      else
        let previousText = text st
        in case jsonrepair E (text st) of
             Inl err \<Rightarrow> onError err st
           | Inr repaired \<Rightarrow>
               let st1 = st\<lparr>text := repaired, jsonStatus := JSON_STATUS_VALID,
                             jsonParseError := None\<rparr>
               in if text st1 \<noteq> previousText
                  then emitOnChange E (text st1) previousText st1 else st1)"

text \<open>
  \<open>handleSort\<close> and \<open>openTransformModal\<close> parse the text and hand the value to the
  host's modal callback. The callbacks they pass (\<open>onSort\<close>, \<open>onTransform\<close>,
  \<open>onClose\<close>) run later, when the user confirms or closes the modal: they are the
  functions \<open>modal_onSort\<close>, \<open>modal_onTransform\<close> and \<open>modal_onClose\<close> below.
\<close>

definition handleSort :: "('j, 'op) env \<Rightarrow> 'j state \<Rightarrow> 'j state" where
  "handleSort E st =
     (if readOnly st then st
      else
        case JSON_parse E (text st) of
          Inl err \<Rightarrow> onError err st
        | Inr json \<Rightarrow>
            let st1 = st\<lparr>modalOpen := True\<rparr>;
                st2 = st1\<lparr>modal_calls := modal_calls st1 @ [SortModal json []]\<rparr>
            in (case onSortModal E json [] of
                  Some err \<Rightarrow> onError err st2
                | None \<Rightarrow> st2))"

text \<open>
  \<open>openTransformModal\<close> is exported. \<open>preview\<close> says that the caller passed an
  \<open>onTransform\<close> callback of its own, which then receives the transformed value
  instead of the component applying the patch.
\<close>

definition openTransformModal ::
  "('j, 'op) env \<Rightarrow> json_path \<Rightarrow> bool \<Rightarrow> 'j state \<Rightarrow> 'j state" where
  "openTransformModal E selectedPath preview st =
     (case JSON_parse E (text st) of
        Inl err \<Rightarrow> onError err st
      | Inr json \<Rightarrow>
          let st1 = st\<lparr>modalOpen := True\<rparr>;
              st2 = st1\<lparr>modal_calls :=
                      modal_calls st1 @ [TransformModal json selectedPath preview]\<rparr>
          in (case onTransformModal E json selectedPath of
                Some err \<Rightarrow> onError err st2
              | None \<Rightarrow> st2))"

definition handleTransform :: "('j, 'op) env \<Rightarrow> 'j state \<Rightarrow> 'j state" where
  "handleTransform E st = (if readOnly st then st else openTransformModal E [] False st)"

text \<open>
  The callbacks handed to the modals. \<open>onSort\<close> and the default \<open>onTransform\<close> call
  \<open>patch\<close>, outside any \<open>try\<close>. With a callback of the caller, \<open>onTransform\<close>
  computes the transformed value from the value the modal was opened with and hands it
  over (\<open>Some\<close> below); the component state stays as it is.
\<close>

definition modal_onSort ::
  "('j, 'op) env \<Rightarrow> 'op list \<Rightarrow> 'j state \<Rightarrow> error + (('j, 'op) JSONPatchResult \<times> 'j state)" where
  "modal_onSort E operations st = patch E operations st"

definition modal_onTransform ::
  "('j, 'op) env \<Rightarrow> bool \<Rightarrow> 'j \<Rightarrow> 'op list \<Rightarrow> 'j state \<Rightarrow> error + ('j option \<times> 'j state)" where
  "modal_onTransform E preview json operations st =
     (if preview then
        (case immutableJSONPatch E json operations of
           Inl err \<Rightarrow> Inl err
         | Inr transformedJson \<Rightarrow> Inr (Some transformedJson, st))
      else
        (case patch E operations st of
           Inl err \<Rightarrow> Inl err
         | Inr (res, st') \<Rightarrow> Inr (None, st')))"

definition modal_onClose :: "'j state \<Rightarrow> 'j state" where
  "modal_onClose st = st\<lparr>modalOpen := False\<rparr>"

subsection \<open>The states the component reaches\<close>

text \<open>
  From its initial state the component moves by what the host, the user, the timer and
  Svelte do: the host assigns props, the view is mounted, a transaction changes the view
  (typing, undo, redo), the debounce timer fires, Svelte runs the reactive statement, the
  linter runs, an exported function or a menu command is called, a modal calls back.
\<close>

inductive reachable :: "('j, 'op) env \<Rightarrow> 'j state \<Rightarrow> bool" for E :: "('j, 'op) env" where
  created: "reachable E (init t listening)"
| text_assigned: "reachable E st \<Longrightarrow> reachable E (st\<lparr>text := t\<rparr>)"
| readOnly_assigned: "reachable E st \<Longrightarrow> reachable E (st\<lparr>readOnly := r\<rparr>)"
| indentation_assigned: "reachable E st \<Longrightarrow> reachable E (st\<lparr>indentation := i\<rparr>)"
| escape_assigned: "reachable E st \<Longrightarrow> reachable E (st\<lparr>escapeUnicodeCharacters := u\<rparr>)"
| validator_assigned: "reachable E st \<Longrightarrow> reachable E (st\<lparr>validator := v\<rparr>)"
| onChange_assigned: "reachable E st \<Longrightarrow> reachable E (st\<lparr>onChange := c\<rparr>)"
| mounted: "reachable E st \<Longrightarrow> codeMirrorView st = None \<Longrightarrow> reachable E (onMount E st)"
| edited: "reachable E st \<Longrightarrow> reachable E (transaction d docChanged st)"
| timer: "reachable E st \<Longrightarrow> reachable E (timerExpired E st)"
| updated: "reachable E st \<Longrightarrow> reachable E (reactive_setCodeMirrorValue E st)"
| refreshed: "reachable E st \<Longrightarrow> refresh st = Inr st' \<Longrightarrow> reachable E st'"
| validated: "reachable E st \<Longrightarrow> reachable E (snd (validate E st))"
| linted: "reachable E st \<Longrightarrow> reachable E (snd (linterCallback E st))"
| patched: "reachable E st \<Longrightarrow> patch E operations st = Inr (res, st') \<Longrightarrow> reachable E st'"
| formatted: "reachable E st \<Longrightarrow> reachable E (handleFormat E st)"
| compacted: "reachable E st \<Longrightarrow> reachable E (handleCompact E st)"
| repaired: "reachable E st \<Longrightarrow> reachable E (handleRepair E st)"
| sorting: "reachable E st \<Longrightarrow> reachable E (handleSort E st)"
| transforming: "reachable E st \<Longrightarrow> reachable E (openTransformModal E selectedPath preview st)"
| transformed: "reachable E st \<Longrightarrow>
    modal_onTransform E preview json operations st = Inr (x, st') \<Longrightarrow> reachable E st'"
| closed: "reachable E st \<Longrightarrow> reachable E (modal_onClose st)"
| accepted: "reachable E st \<Longrightarrow> reachable E (handleAcceptTooLarge E st)"
| cancelled: "reachable E st \<Longrightarrow> reachable E (cancelLoadTooLarge E st)"

section \<open>An instance of the environment\<close>

text \<open>
  The theorems below hold for every environment. Their witnesses and the counterexamples
  run the component in one environment, \<open>E0\<close>: JSON values with integer numbers, a
  serializer and a parser for them that follow \<open>JSON.stringify\<close> and \<open>JSON.parse\<close>,
  a repair function that strips trailing commas, and patch documents made of
  \<open>replace\<close> operations, applied and reverted as the package
  \<^verbatim>\<open>immutable-json-patch\<close> applies and reverts them.
\<close>

subsection \<open>JSON values and \<open>JSON.stringify\<close>\<close>

text \<open>
  \<open>JUndefined\<close> is JavaScript's \<open>undefined\<close>, which is also what reading a hole of an
  array gives. \<open>JSON.parse\<close> never yields it; the patch functions do.
\<close>

datatype JSONValue =
  JNull
  | JBool bool
  | JNumber int
  | JString string
  | JArray "JSONValue list"
  | JObject "(string \<times> JSONValue) list"
  | JUndefined

fun string_of_nat :: "nat \<Rightarrow> string" where
  "string_of_nat n =
     (if n < 10 then [''0123456789'' ! n]
      else string_of_nat (n div 10) @ [''0123456789'' ! (n mod 10)])"

declare string_of_nat.simps [simp del]

definition string_of_int :: "int \<Rightarrow> string" where
  "string_of_int i =
     (if i < 0 then CHR ''-'' # string_of_nat (nat (- i)) else string_of_nat (nat i))"

definition escape_char :: "char \<Rightarrow> string" where
  "escape_char c =
     (if c = CHR 0x22 then [CHR 0x5C, CHR 0x22]
      else if c = CHR 0x5C then [CHR 0x5C, CHR 0x5C]
      else if c = CHR 0x0A then [CHR 0x5C, CHR ''n'']
      else if c = CHR 0x0D then [CHR 0x5C, CHR ''r'']
      else if c = CHR 0x09 then [CHR 0x5C, CHR ''t'']
      else [c])"

definition quote :: "string \<Rightarrow> string" where
  "quote s = CHR 0x22 # concat (map escape_char s) @ [CHR 0x22]"

fun join :: "string \<Rightarrow> string list \<Rightarrow> string" where
  "join sep [] = []"
| "join sep [x] = x"
| "join sep (x # y # ys) = x @ sep @ join sep (y # ys)"

text \<open>
  The third argument of \<open>JSON.stringify\<close>: a number gives that many spaces, at most
  ten; a string gives its first ten characters; no argument gives the compact form.
\<close>

definition gap_of :: "indentation option \<Rightarrow> string" where
  "gap_of ind =
     (case ind of
        None \<Rightarrow> []
      | Some (IndentNumber n) \<Rightarrow> replicate (nat (min 10 n)) (CHR '' '')
      | Some (IndentString s) \<Rightarrow> take 10 s)"

text \<open>
  An element of an array that is \<open>undefined\<close> is written \<open>null\<close>; a member of an
  object whose value is \<open>undefined\<close> is left out. For \<open>undefined\<close> itself
  \<open>JSON.stringify\<close> returns no text; \<open>str\<close> gives \<open>null\<close> there, and no run below
  serializes it.
\<close>

fun str :: "string \<Rightarrow> string \<Rightarrow> JSONValue \<Rightarrow> string" where
  "str gap ind JNull = ''null''"
| "str gap ind (JBool b) = (if b then ''true'' else ''false'')"
| "str gap ind (JNumber i) = string_of_int i"
| "str gap ind (JString s) = quote s"
| "str gap ind (JArray xs) =
     (if xs = [] then ''[]''
      else if gap = [] then ''['' @ join '','' (map (str gap (ind @ gap)) xs) @ '']''
      else ''['' @ [CHR 0x0A] @ ind @ gap
           @ join ('','' @ [CHR 0x0A] @ ind @ gap) (map (str gap (ind @ gap)) xs)
           @ [CHR 0x0A] @ ind @ '']'')"
| "str gap ind (JObject ms) =
     (if filter (\<lambda>m. snd m \<noteq> JUndefined) ms = [] then ''{}''
      else if gap = [] then
        ''{'' @ join '',''
                 (map (\<lambda>(k, v). quote k @ '':'' @ str gap (ind @ gap) v)
                    (filter (\<lambda>m. snd m \<noteq> JUndefined) ms))
        @ ''}''
      else ''{'' @ [CHR 0x0A] @ ind @ gap
           @ join ('','' @ [CHR 0x0A] @ ind @ gap)
               (map (\<lambda>(k, v). quote k @ '': '' @ str gap (ind @ gap) v)
                  (filter (\<lambda>m. snd m \<noteq> JUndefined) ms))
           @ [CHR 0x0A] @ ind @ ''}'')"
| "str gap ind JUndefined = ''null''"

definition stringify :: "JSONValue \<Rightarrow> indentation option \<Rightarrow> string" where
  "stringify v ind = str (gap_of ind) [] v"

subsection \<open>\<open>JSON.parse\<close>\<close>

definition is_ws :: "char \<Rightarrow> bool" where
  "is_ws c \<longleftrightarrow> c = CHR '' '' \<or> c = CHR 0x0A \<or> c = CHR 0x0D \<or> c = CHR 0x09"

definition skip_ws :: "string \<Rightarrow> string" where
  "skip_ws s = dropWhile is_ws s"

definition is_digit :: "char \<Rightarrow> bool" where
  "is_digit c \<longleftrightarrow> c \<in> set ''0123456789''"

definition digits_value :: "string \<Rightarrow> nat" where
  "digits_value ds = foldl (\<lambda>a c. 10 * a + (of_char c - 48)) 0 ds"

text \<open>
  An integer: an optional minus sign, then \<open>0\<close> or a digit sequence that does not start
  with \<open>0\<close>. A fraction or an exponent is outside this instance and is refused.
\<close>

definition parse_number :: "string \<Rightarrow> (JSONValue \<times> string) option" where
  "parse_number s =
     (let neg = (take 1 s = ''-'');
          s1 = (if neg then drop 1 s else s);
          ds = takeWhile is_digit s1;
          rest = dropWhile is_digit s1
      in if ds = [] \<or> (length ds > 1 \<and> hd ds = CHR ''0'') then None
         else if take 1 rest = ''.'' \<or> take 1 rest = ''e'' \<or> take 1 rest = ''E'' then None
         else Some (JNumber (if neg then - int (digits_value ds) else int (digits_value ds)),
                    rest))"

definition unescape_char :: "char \<Rightarrow> char option" where
  "unescape_char c =
     (if c = CHR 0x22 then Some (CHR 0x22)
      else if c = CHR 0x5C then Some (CHR 0x5C)
      else if c = CHR ''/'' then Some (CHR ''/'')
      else if c = CHR ''n'' then Some (CHR 0x0A)
      else if c = CHR ''r'' then Some (CHR 0x0D)
      else if c = CHR ''t'' then Some (CHR 0x09)
      else None)"

text \<open>The characters of a string literal, after its opening quote.\<close>

fun parse_chars :: "string \<Rightarrow> (string \<times> string) option" where
  "parse_chars [] = None"
| "parse_chars [c] = (if c = CHR 0x22 then Some ([], []) else None)"
| "parse_chars (c # e # cs) =
     (if c = CHR 0x22 then Some ([], e # cs)
      else if c = CHR 0x5C then
        (case unescape_char e of
           None \<Rightarrow> None
         | Some x \<Rightarrow> map_option (apfst ((#) x)) (parse_chars cs))
      else if (of_char c :: nat) < 32 then None
      else map_option (apfst ((#) c)) (parse_chars (e # cs)))"

text \<open>A later member with the key of an earlier one replaces its value, in place.\<close>

fun set_member :: "string \<Rightarrow> JSONValue \<Rightarrow> (string \<times> JSONValue) list \<Rightarrow> (string \<times> JSONValue) list" where
  "set_member k v [] = [(k, v)]"
| "set_member k v ((k', v') # ms) =
     (if k' = k then (k, v) # ms else (k', v') # set_member k v ms)"

text \<open>
  The parser descends with a bound on the number of nested calls; \<open>parse\<close> supplies the
  length of the text, which no descent exceeds since every call consumes a character.
\<close>

fun parse_value :: "nat \<Rightarrow> string \<Rightarrow> (JSONValue \<times> string) option"
  and parse_elements :: "nat \<Rightarrow> string \<Rightarrow> (JSONValue list \<times> string) option"
  and parse_members :: "nat \<Rightarrow> string \<Rightarrow> ((string \<times> JSONValue) list \<times> string) option"
where
  "parse_value 0 s = None"
| "parse_value (Suc n) s =
     (let s1 = skip_ws s
      in if take 4 s1 = ''null'' then Some (JNull, drop 4 s1)
         else if take 4 s1 = ''true'' then Some (JBool True, drop 4 s1)
         else if take 5 s1 = ''false'' then Some (JBool False, drop 5 s1)
         else if take 1 s1 = [CHR 0x22] then map_option (apfst JString) (parse_chars (drop 1 s1))
         else if take 1 s1 = ''['' then
           (if take 1 (skip_ws (drop 1 s1)) = '']''
            then Some (JArray [], drop 1 (skip_ws (drop 1 s1)))
            else map_option (apfst JArray) (parse_elements n (drop 1 s1)))
         else if take 1 s1 = ''{'' then
           (if take 1 (skip_ws (drop 1 s1)) = ''}''
            then Some (JObject [], drop 1 (skip_ws (drop 1 s1)))
            else map_option (apfst (\<lambda>ms. JObject (foldl (\<lambda>acc (k, v). set_member k v acc) [] ms)))
                   (parse_members n (drop 1 s1)))
         else parse_number s1)"
| "parse_elements 0 s = None"
| "parse_elements (Suc n) s =
     (case parse_value n s of
        None \<Rightarrow> None
      | Some (v, r) \<Rightarrow>
          (let r1 = skip_ws r
           in if take 1 r1 = '','' then map_option (apfst ((#) v)) (parse_elements n (drop 1 r1))
              else if take 1 r1 = '']'' then Some ([v], drop 1 r1)
              else None))"
| "parse_members 0 s = None"
| "parse_members (Suc n) s =
     (let s1 = skip_ws s
      in if take 1 s1 \<noteq> [CHR 0x22] then None
         else
           (case parse_chars (drop 1 s1) of
              None \<Rightarrow> None
            | Some (k, r) \<Rightarrow>
                (let r1 = skip_ws r
                 in if take 1 r1 \<noteq> '':'' then None
                    else
                      (case parse_value n (drop 1 r1) of
                         None \<Rightarrow> None
                       | Some (v, r2) \<Rightarrow>
                           (let r3 = skip_ws r2
                            in if take 1 r3 = '','' then
                                 map_option (apfst ((#) (k, v))) (parse_members n (drop 1 r3))
                               else if take 1 r3 = ''}'' then Some ([(k, v)], drop 1 r3)
                               else None)))))"

definition parse :: "string \<Rightarrow> error + JSONValue" where
  "parse s =
     (case parse_value (Suc (length s)) s of
        None \<Rightarrow> Inl (SyntaxError ''Unexpected token in JSON'')
      | Some (v, r) \<Rightarrow>
          if skip_ws r = [] then Inr v else Inl (SyntaxError ''Unexpected token in JSON''))"

subsection \<open>\<open>jsonrepair\<close>: stripping trailing commas\<close>

fun strip_trailing_commas :: "string \<Rightarrow> string" where
  "strip_trailing_commas [] = []"
| "strip_trailing_commas (c # cs) =
     (if c = CHR '','' \<and> (take 1 (skip_ws cs) = '']'' \<or> take 1 (skip_ws cs) = ''}'')
      then strip_trailing_commas cs
      else c # strip_trailing_commas cs)"

definition repair :: "string \<Rightarrow> error + string" where
  "repair s =
     (case parse (strip_trailing_commas s) of
        Inr v \<Rightarrow> Inr (strip_trailing_commas s)
      | Inl e \<Rightarrow> Inl (JSONRepairError ''Cannot repair''))"

subsection \<open>Patch documents of \<open>replace\<close> operations\<close>

text \<open>
  The package \<^verbatim>\<open>immutable-json-patch\<close> is outside the sources. Its \<open>replace\<close>
  operation is \<open>setIn\<close>, and the operation that reverts it is a \<open>replace\<close> with the
  value that \<open>getIn\<close> finds at the path. An operation holds its path as the list
  of keys that the library parses from the JSON pointer. The key \<open>-\<close>, which the
  library resolves to the end of an array, and keys that name built-in properties of
  JavaScript objects (\<open>length\<close>) are outside this instance.
\<close>

datatype JSONPatchOperation = Replace json_path JSONValue

text \<open>An array index: \<open>0\<close>, or digits that do not start with \<open>0\<close>.\<close>

definition parse_index :: "string \<Rightarrow> nat option" where
  "parse_index s =
     (case s of
        [] \<Rightarrow> None
      | c # cs \<Rightarrow>
          if list_all is_digit s \<and> (cs = [] \<or> c \<in> set ''123456789'')
          then Some (digits_value s) else None)"

text \<open>\<open>object[key]\<close>: \<open>undefined\<close> when the key or the index is missing.\<close>

fun child :: "JSONValue \<Rightarrow> string \<Rightarrow> JSONValue" where
  "child (JObject ms) k = (case map_of ms k of Some c \<Rightarrow> c | None \<Rightarrow> JUndefined)"
| "child (JArray xs) k =
     (case parse_index k of
        Some i \<Rightarrow> if i < length xs then xs ! i else JUndefined
      | None \<Rightarrow> JUndefined)"
| "child v k = JUndefined"

fun getIn :: "JSONValue \<Rightarrow> json_path \<Rightarrow> JSONValue" where
  "getIn v [] = v"
| "getIn v (k # p) = getIn (child v k) p"

text \<open>
  \<open>array[i] = u\<close>: an index past the end extends the array, leaving holes before it.
\<close>

definition set_at :: "nat \<Rightarrow> JSONValue \<Rightarrow> JSONValue list \<Rightarrow> JSONValue list" where
  "set_at i u xs =
     (if i < length xs then xs[i := u]
      else xs @ replicate (i - length xs) JUndefined @ [u])"

text \<open>
  \<open>applyProp\<close> returns the object itself when \<open>object[key]\<close> is the value already, and
  a copy with the key assigned otherwise. A key that is no index names a property of the
  array object, which is no element of the array.
\<close>

definition applyProp :: "JSONValue \<Rightarrow> string \<Rightarrow> JSONValue \<Rightarrow> JSONValue" where
  "applyProp v k u =
     (if child v k = u then v
      else case v of
             JObject ms \<Rightarrow> JObject (set_member k u ms)
           | JArray xs \<Rightarrow> (case parse_index k of Some i \<Rightarrow> JArray (set_at i u xs) | None \<Rightarrow> v)
           | _ \<Rightarrow> v)"

definition isObjectOrArray :: "JSONValue \<Rightarrow> bool" where
  "isObjectOrArray v = (case v of JObject ms \<Rightarrow> True | JArray xs \<Rightarrow> True | _ \<Rightarrow> False)"

text \<open>
  \<open>setIn\<close> does not test that the path exists: it throws only where the path goes
  through a value that is neither an object nor an array.
\<close>

fun setIn :: "JSONValue \<Rightarrow> json_path \<Rightarrow> JSONValue \<Rightarrow> error + JSONValue" where
  "setIn v [] x = Inr x"
| "setIn v (k # p) x =
     (case setIn (child v k) p x of
        Inl e \<Rightarrow> Inl e
      | Inr u \<Rightarrow>
          if isObjectOrArray v then Inr (applyProp v k u)
          else Inl (PatchError ''Path does not exist''))"

fun apply_operation :: "JSONValue \<Rightarrow> JSONPatchOperation \<Rightarrow> error + JSONValue" where
  "apply_operation v (Replace p x) = setIn v p x"

fun apply_operations :: "JSONValue \<Rightarrow> JSONPatchOperation list \<Rightarrow> error + JSONValue" where
  "apply_operations v [] = Inr v"
| "apply_operations v (operation # operations) =
     (case apply_operation v operation of
        Inl e \<Rightarrow> Inl e
      | Inr v' \<Rightarrow> apply_operations v' operations)"

text \<open>
  The inverse document: each operation is reverted against the document as it is just
  before that operation, and the reverting operations are collected in reverse order.
\<close>

fun revert_operations ::
  "JSONValue \<Rightarrow> JSONPatchOperation list \<Rightarrow> error + JSONPatchOperation list" where
  "revert_operations v [] = Inr []"
| "revert_operations v (Replace p x # operations) =
     (case apply_operation v (Replace p x) of
        Inl e \<Rightarrow> Inl e
      | Inr v' \<Rightarrow>
          (case revert_operations v' operations of
             Inl e \<Rightarrow> Inl e
           | Inr reverted \<Rightarrow> Inr (reverted @ [Replace p (getIn v p)])))"

text \<open>
  \<open>existsIn\<close>: the path leads to a member or an element of the document.
  \<open>targets_exist\<close>: every operation of a patch document replaces a value that exists in
  the document at the moment the operation is applied.
\<close>

fun existsIn :: "JSONValue \<Rightarrow> json_path \<Rightarrow> bool" where
  "existsIn v [] = True"
| "existsIn (JObject ms) (k # p) =
     (case map_of ms k of Some c \<Rightarrow> existsIn c p | None \<Rightarrow> False)"
| "existsIn (JArray xs) (k # p) =
     (case parse_index k of
        Some i \<Rightarrow> i < length xs \<and> existsIn (xs ! i) p
      | None \<Rightarrow> False)"
| "existsIn v (k # p) = False"


subsection \<open>The environment \<open>E0\<close>\<close>

text \<open>
  With \<open>escapeUnicodeCharacters\<close> off, \<open>createNormalizationFunctions\<close> yields
  functions that change nothing; the runs below leave the flag off. The validator
  behind reference \<open>0\<close> accepts arrays only; the validator behind every other
  reference requires a member \<open>b\<close> and reports its absence at the path of that member.
  The text locator finds no location for a path that is not in the text; the offsets it
  finds otherwise are not computed here. The size limit is 10 MB.
\<close>

fun error_message :: "error \<Rightarrow> string" where
  "error_message (SyntaxError m) = m"
| "error_message (JSONRepairError m) = m"
| "error_message (PatchError m) = m"
| "error_message (HostCallbackError m) = m"
| "error_message (TypeError m) = m"

definition E0 :: "(JSONValue, JSONPatchOperation) env" where
  "E0 =
     \<lparr>JSON_parse = parse,
      JSON_stringify = stringify,
      jsonrepair = repair,
      immutableJSONPatch = apply_operations,
      revertJSONPatch = revert_operations,
      escapeValue = (\<lambda>u s. s),
      unescapeValue = (\<lambda>u s. s),
      findTextLocation =
        (\<lambda>t p. case parse t of
            Inl e \<Rightarrow> Some \<lparr>loc_line = None, loc_column = None, loc_from = 0, loc_to = 0\<rparr>
          | Inr v \<Rightarrow>
              if existsIn v p
              then Some \<lparr>loc_line = None, loc_column = None, loc_from = 0, loc_to = 0\<rparr>
              else None),
      normalizeJsonParseError =
        (\<lambda>t e. \<lparr>pe_position = None, pe_line = None, pe_column = None,
                 pe_message = error_message e\<rparr>),
      validators =
        (\<lambda>r v. if r = 0 then
             (case v of
                JArray xs \<Rightarrow> []
              | _ \<Rightarrow> [\<lparr>ve_path = [], ve_message = ''must be an array'', ve_severity = warning\<rparr>])
           else if child v ''b'' = JUndefined then
             [\<lparr>ve_path = [''b''], ve_message = ''must have required property b'',
               ve_severity = warning\<rparr>]
           else []),
      MAX_DOCUMENT_SIZE_TEXT_MODE = 10485760,
      onSortModal = (\<lambda>j p. None),
      onTransformModal = (\<lambda>j p. None)\<rparr>"

section \<open>Notions used in the statements\<close>

text \<open>
  What \<open>validate\<close> stores from a validation outcome, what a call of
  \<open>memoizedValidateText\<close> returns and counts, and the state after the part of
  \<open>validate\<close> that follows the flush.
\<close>

definition status_of :: "ContentErrors \<Rightarrow> json_status" where
  "status_of ce =
     (case ce of
        ContentParseError parseError isRepairable \<Rightarrow>
          if isRepairable then JSON_STATUS_REPAIRABLE else JSON_STATUS_INVALID
      | ContentValidationErrors errs \<Rightarrow> JSON_STATUS_VALID)"

definition parseError_of :: "ContentErrors \<Rightarrow> ParseError option" where
  "parseError_of ce =
     (case ce of
        ContentParseError parseError isRepairable \<Rightarrow> Some parseError
      | ContentValidationErrors errs \<Rightarrow> None)"

definition validationErrors_of :: "ContentErrors \<Rightarrow> ValidationError list" where
  "validationErrors_of ce =
     (case ce of
        ContentParseError parseError isRepairable \<Rightarrow> []
      | ContentValidationErrors errs \<Rightarrow> errs)"

definition memo_hit :: "string \<Rightarrow> validator_ref option \<Rightarrow> 'j state \<Rightarrow> bool" where
  "memo_hit t v st = (case memo st of Some (t', v', r) \<Rightarrow> t' = t \<and> v' = v | None \<Rightarrow> False)"

definition memo_result ::
  "('j, 'op) env \<Rightarrow> string \<Rightarrow> validator_ref option \<Rightarrow> 'j state \<Rightarrow> ContentErrors" where
  "memo_result E t v st =
     (case memo st of
        Some (t', v', r) \<Rightarrow> if t' = t \<and> v' = v then r else validateText E t v
      | None \<Rightarrow> validateText E t v)"

definition memo_calls :: "string \<Rightarrow> validator_ref option \<Rightarrow> 'j state \<Rightarrow> nat" where
  "memo_calls t v st =
     (if memo_hit t v st then validateText_calls st else Suc (validateText_calls st))"

definition validated :: "('j, 'op) env \<Rightarrow> 'j state \<Rightarrow> 'j state" where
  "validated E st =
     st\<lparr>memo := Some (text st, validator st, memo_result E (text st) (validator st) st),
        validateText_calls := memo_calls (text st) (validator st) st,
        jsonStatus := status_of (memo_result E (text st) (validator st) st),
        jsonParseError := parseError_of (memo_result E (text st) (validator st) st),
        validationErrors := validationErrors_of (memo_result E (text st) (validator st) st)\<rparr>"

text \<open>
  \<open>memo_sound\<close>: what \<open>memoizedValidateText\<close> keeps is the result of
  \<open>validateText\<close> on the kept arguments. \<open>applies\<close>: the debounced callback would
  change the canonical text. \<open>synced\<close>: the state after that change, before the change
  event.
\<close>

definition memo_sound :: "('j, 'op) env \<Rightarrow> 'j state \<Rightarrow> bool" where
  "memo_sound E st =
     (case memo st of None \<Rightarrow> True | Some (t, v, r) \<Rightarrow> r = validateText E t v)"

definition synced :: "('j, 'op) env \<Rightarrow> 'j state \<Rightarrow> 'j state" where
  "synced E st =
     updateCanUndoRedo
       (st\<lparr>codeMirrorText := Some (getCodeMirrorValue E st), text := getCodeMirrorValue E st\<rparr>)"

definition applies :: "('j, 'op) env \<Rightarrow> 'j state \<Rightarrow> bool" where
  "applies E st \<longleftrightarrow>
     \<not> onChangeDisabled st \<and> codeMirrorView st \<noteq> None \<and> getCodeMirrorValue E st \<noteq> text st"

text \<open>
  What holds in every state the component reaches: what \<open>memoizedValidateText\<close>
  keeps is a result of \<open>validateText\<close>, \<open>onChangeDisabled\<close> is off, and a
  debounced call is pending only when the view exists.
\<close>

definition component_inv :: "('j, 'op) env \<Rightarrow> 'j state \<Rightarrow> bool" where
  "component_inv E st \<longleftrightarrow>
     memo_sound E st \<and> \<not> onChangeDisabled st \<and> (pending st \<longrightarrow> codeMirrorView st \<noteq> None)"

section \<open>The change path in closed form\<close>

text \<open>
  With no debounced call pending, \<open>flush\<close> does nothing, and \<open>validate\<close> and
  \<open>emitOnChange\<close> reduce to updates of the state.
\<close>

lemma memoizedValidateText_eq:
  "memoizedValidateText E t v st =
     (memo_result E t v st,
      st\<lparr>memo := Some (t, v, memo_result E t v st),
         validateText_calls := memo_calls t v st\<rparr>)"
proof (cases "memo st")
  case None
  then show ?thesis
    by (simp add: memoizedValidateText_def memo_result_def memo_calls_def memo_hit_def)
next
  case (Some x)
  obtain t' v' r where x: "x = (t', v', r)" by (cases x) auto
  show ?thesis
  proof (cases "t' = t \<and> v' = v")
    case True
    have "st\<lparr>memo := memo st, validateText_calls := validateText_calls st\<rparr> = st" by simp
    with True Some x show ?thesis
      by (simp add: memoizedValidateText_def memo_result_def memo_calls_def memo_hit_def)
  next
    case False
    then show ?thesis
      by (simp add: memoizedValidateText_def memo_result_def memo_calls_def memo_hit_def
            Some x if_not_P [OF False])
  qed
qed

lemma flush_idle: "\<not> pending st \<Longrightarrow> flush E st = st"
  by (simp add: flush.simps)

lemma validate_flush:
  "validate E st =
     (memo_result E (text (flush E st)) (validator (flush E st)) (flush E st),
      validated E (flush E st))"
  by (subst validate.simps)
     (simp add: memoizedValidateText_eq validated_def status_of_def parseError_of_def
        validationErrors_of_def Let_def split: ContentErrors.split)

lemma validate_idle:
  "\<not> pending st \<Longrightarrow>
   validate E st = (memo_result E (text st) (validator st) st, validated E st)"
  by (simp add: validate_flush flush_idle)

lemma emitOnChange_idle:
  "\<not> pending st \<Longrightarrow> onChange st \<Longrightarrow>
   emitOnChange E t p st =
     (validated E st)\<lparr>events := events st @
        [\<lparr>current = t, previous = p,
          contentErrors = memo_result E (text st) (validator st) st\<rparr>]\<rparr>"
  by (subst emitOnChange.simps) (simp add: validate_idle validated_def)

lemma emitOnChange_silent: "\<not> onChange st \<Longrightarrow> emitOnChange E t p st = st"
  by (simp add: emitOnChange.simps)

lemma updateCanUndoRedo_fields [simp]:
  "text (updateCanUndoRedo st) = text st"
  "readOnly (updateCanUndoRedo st) = readOnly st"
  "indentation (updateCanUndoRedo st) = indentation st"
  "escapeUnicodeCharacters (updateCanUndoRedo st) = escapeUnicodeCharacters st"
  "validator (updateCanUndoRedo st) = validator st"
  "onChange (updateCanUndoRedo st) = onChange st"
  "codeMirrorView (updateCanUndoRedo st) = codeMirrorView st"
  "codeMirrorText (updateCanUndoRedo st) = codeMirrorText st"
  "onChangeDisabled (updateCanUndoRedo st) = onChangeDisabled st"
  "acceptTooLarge (updateCanUndoRedo st) = acceptTooLarge st"
  "validationErrors (updateCanUndoRedo st) = validationErrors st"
  "modalOpen (updateCanUndoRedo st) = modalOpen st"
  "jsonStatus (updateCanUndoRedo st) = jsonStatus st"
  "jsonParseError (updateCanUndoRedo st) = jsonParseError st"
  "pending (updateCanUndoRedo st) = pending st"
  "memo (updateCanUndoRedo st) = memo st"
  "validateText_calls (updateCanUndoRedo st) = validateText_calls st"
  "events (updateCanUndoRedo st) = events st"
  "reported (updateCanUndoRedo st) = reported st"
  "modal_calls (updateCanUndoRedo st) = modal_calls st"
  by (simp_all add: updateCanUndoRedo_def split: option.split)

lemma synced_fields [simp]:
  "text (synced E st) = getCodeMirrorValue E st"
  "codeMirrorText (synced E st) = Some (getCodeMirrorValue E st)"
  "readOnly (synced E st) = readOnly st"
  "indentation (synced E st) = indentation st"
  "escapeUnicodeCharacters (synced E st) = escapeUnicodeCharacters st"
  "validator (synced E st) = validator st"
  "onChange (synced E st) = onChange st"
  "codeMirrorView (synced E st) = codeMirrorView st"
  "onChangeDisabled (synced E st) = onChangeDisabled st"
  "acceptTooLarge (synced E st) = acceptTooLarge st"
  "modalOpen (synced E st) = modalOpen st"
  "pending (synced E st) = pending st"
  "memo (synced E st) = memo st"
  "validateText_calls (synced E st) = validateText_calls st"
  "events (synced E st) = events st"
  "reported (synced E st) = reported st"
  "modal_calls (synced E st) = modal_calls st"
  by (simp_all add: synced_def)

lemma validated_fields [simp]:
  "text (validated E st) = text st"
  "codeMirrorText (validated E st) = codeMirrorText st"
  "readOnly (validated E st) = readOnly st"
  "indentation (validated E st) = indentation st"
  "escapeUnicodeCharacters (validated E st) = escapeUnicodeCharacters st"
  "validator (validated E st) = validator st"
  "onChange (validated E st) = onChange st"
  "codeMirrorView (validated E st) = codeMirrorView st"
  "onChangeDisabled (validated E st) = onChangeDisabled st"
  "acceptTooLarge (validated E st) = acceptTooLarge st"
  "modalOpen (validated E st) = modalOpen st"
  "pending (validated E st) = pending st"
  "events (validated E st) = events st"
  "reported (validated E st) = reported st"
  "modal_calls (validated E st) = modal_calls st"
  "memo (validated E st)
     = Some (text st, validator st, memo_result E (text st) (validator st) st)"
  "validateText_calls (validated E st) = memo_calls (text st) (validator st) st"
  "jsonStatus (validated E st) = status_of (memo_result E (text st) (validator st) st)"
  "jsonParseError (validated E st) = parseError_of (memo_result E (text st) (validator st) st)"
  "validationErrors (validated E st)
     = validationErrors_of (memo_result E (text st) (validator st) st)"
  by (simp_all add: validated_def)

lemma getCodeMirrorValue_pending [simp]:
  "getCodeMirrorValue E (st\<lparr>pending := b\<rparr>) = getCodeMirrorValue E st"
  by (simp add: getCodeMirrorValue_def split: option.split)

lemma synced_pending: "synced E (st\<lparr>pending := b\<rparr>) = (synced E st)\<lparr>pending := b\<rparr>"
  by (simp add: synced_def updateCanUndoRedo_def split: option.split)

text \<open>The debounced callback when nothing is pending, case by case.\<close>

lemma onChangeCodeMirrorValue_guarded:
  "onChangeDisabled st \<or> codeMirrorView st = None \<Longrightarrow> onChangeCodeMirrorValue E st = st"
  by (subst onChangeCodeMirrorValue.simps) simp

lemma onChangeCodeMirrorValue_same:
  "\<not> onChangeDisabled st \<Longrightarrow> codeMirrorView st \<noteq> None \<Longrightarrow>
   getCodeMirrorValue E st = text st \<Longrightarrow>
   onChangeCodeMirrorValue E st = st\<lparr>codeMirrorText := Some (text st)\<rparr>"
  by (subst onChangeCodeMirrorValue.simps) (simp add: Let_def del: not_None_eq)

lemma onChangeCodeMirrorValue_applies:
  "applies E st \<Longrightarrow>
   onChangeCodeMirrorValue E st
     = emitOnChange E (getCodeMirrorValue E st) (getCodeMirrorValue E st) (synced E st)"
  by (subst onChangeCodeMirrorValue.simps)
     (simp add: applies_def synced_def Let_def del: not_None_eq)

lemma memo_result_sound:
  "memo_sound E st \<Longrightarrow> memo_result E t v st = validateText E t v"
  by (cases "memo st") (auto simp: memo_sound_def memo_result_def)

lemma memo_sound_validated: "memo_sound E st \<Longrightarrow> memo_sound E (validated E st)"
  by (simp add: memo_sound_def memo_result_sound [unfolded memo_sound_def])

lemma flush_pending:
  "pending st \<Longrightarrow> flush E st = onChangeCodeMirrorValue E (st\<lparr>pending := False\<rparr>)"
  by (simp add: flush.simps)

lemma applies_pending [simp]: "applies E (st\<lparr>pending := b\<rparr>) = applies E st"
  by (simp add: applies_def)

text \<open>\<open>flush\<close> in closed form.\<close>

lemma flush_eq:
  "flush E st =
     (if \<not> pending st then st
      else if onChangeDisabled st \<or> codeMirrorView st = None then st\<lparr>pending := False\<rparr>
      else if getCodeMirrorValue E st = text st
        then st\<lparr>pending := False, codeMirrorText := Some (text st)\<rparr>
      else if onChange st
        then (validated E ((synced E st)\<lparr>pending := False\<rparr>))\<lparr>events := events st @
               [\<lparr>current = getCodeMirrorValue E st, previous = getCodeMirrorValue E st,
                 contentErrors = memo_result E (getCodeMirrorValue E st) (validator st) st\<rparr>]\<rparr>
      else (synced E st)\<lparr>pending := False\<rparr>)"
proof (cases "pending st")
  case False
  then show ?thesis by (simp add: flush_idle)
next
  case True
  show ?thesis
  proof (cases "onChangeDisabled st \<or> codeMirrorView st = None")
    case g: True
    then show ?thesis using True
      by (simp add: flush_pending onChangeCodeMirrorValue_guarded)
  next
    case g: False
    show ?thesis
    proof (cases "getCodeMirrorValue E st = text st")
      case s: True
      then show ?thesis using True g
        by (simp add: flush_pending onChangeCodeMirrorValue_same del: not_None_eq)
    next
      case s: False
      with g have a: "applies E (st\<lparr>pending := False\<rparr>)" by (simp add: applies_def)
      show ?thesis
      proof (cases "onChange st")
        case l: True
        then show ?thesis using True g s a
          by (simp add: flush_pending onChangeCodeMirrorValue_applies synced_pending
                emitOnChange_idle memo_result_def del: not_None_eq)
      next
        case l: False
        then show ?thesis using True g s a
          by (simp add: flush_pending onChangeCodeMirrorValue_applies synced_pending
                emitOnChange_silent del: not_None_eq)
      qed
    qed
  qed
qed

lemma flush_props [simp]:
  "pending (flush E st) = False"
  "readOnly (flush E st) = readOnly st"
  "indentation (flush E st) = indentation st"
  "escapeUnicodeCharacters (flush E st) = escapeUnicodeCharacters st"
  "validator (flush E st) = validator st"
  "onChange (flush E st) = onChange st"
  "codeMirrorView (flush E st) = codeMirrorView st"
  "onChangeDisabled (flush E st) = onChangeDisabled st"
  "acceptTooLarge (flush E st) = acceptTooLarge st"
  "modalOpen (flush E st) = modalOpen st"
  "reported (flush E st) = reported st"
  "modal_calls (flush E st) = modal_calls st"
  by (simp_all add: flush_eq)

lemma flush_text:
  "text (flush E st) =
     (if pending st \<and> \<not> onChangeDisabled st \<and> codeMirrorView st \<noteq> None
      then getCodeMirrorValue E st else text st)"
  by (simp add: flush_eq del: not_None_eq)

lemma flush_events:
  "events (flush E st) =
     (if pending st \<and> applies E st \<and> onChange st
      then events st @
        [\<lparr>current = getCodeMirrorValue E st, previous = getCodeMirrorValue E st,
          contentErrors = memo_result E (getCodeMirrorValue E st) (validator st) st\<rparr>]
      else events st)"
  by (simp add: flush_eq applies_def del: not_None_eq)

lemma flush_memo:
  "memo (flush E st) =
     (if pending st \<and> applies E st \<and> onChange st
      then Some (getCodeMirrorValue E st, validator st,
                 memo_result E (getCodeMirrorValue E st) (validator st) st)
      else memo st)"
  by (simp add: flush_eq applies_def memo_result_def del: not_None_eq)

lemma flush_calls:
  "validateText_calls (flush E st) =
     (if pending st \<and> applies E st \<and> onChange st
      then memo_calls (getCodeMirrorValue E st) (validator st) st
      else validateText_calls st)"
  by (simp add: flush_eq applies_def memo_calls_def memo_hit_def del: not_None_eq)

lemma memo_sound_flush: "memo_sound E st \<Longrightarrow> memo_sound E (flush E st)"
  by (simp add: memo_sound_def flush_memo memo_result_sound [unfolded memo_sound_def])

text \<open>\<open>validate\<close> on any state: its result, and the fields it leaves alone.\<close>

lemma validate_props [simp]:
  "pending (snd (validate E st)) = False"
  "readOnly (snd (validate E st)) = readOnly st"
  "indentation (snd (validate E st)) = indentation st"
  "escapeUnicodeCharacters (snd (validate E st)) = escapeUnicodeCharacters st"
  "validator (snd (validate E st)) = validator st"
  "onChange (snd (validate E st)) = onChange st"
  "codeMirrorView (snd (validate E st)) = codeMirrorView st"
  "onChangeDisabled (snd (validate E st)) = onChangeDisabled st"
  "acceptTooLarge (snd (validate E st)) = acceptTooLarge st"
  "modalOpen (snd (validate E st)) = modalOpen st"
  "reported (snd (validate E st)) = reported st"
  "modal_calls (snd (validate E st)) = modal_calls st"
  "text (snd (validate E st)) = text (flush E st)"
  "events (snd (validate E st)) = events (flush E st)"
  by (simp_all add: validate_flush)

lemma validate_memo:
  "memo (snd (validate E st))
     = Some (text (snd (validate E st)), validator st, fst (validate E st))"
  by (simp add: validate_flush)

lemma validate_result_sound:
  "memo_sound E st \<Longrightarrow>
   fst (validate E st) = validateText E (text (snd (validate E st))) (validator st)"
  by (simp add: validate_flush memo_result_sound memo_sound_flush)

lemma memo_sound_validate: "memo_sound E st \<Longrightarrow> memo_sound E (snd (validate E st))"
  by (simp add: validate_flush memo_sound_validated memo_sound_flush)

lemma memo_calls_bounds:
  "validateText_calls st \<le> memo_calls t v st" "memo_calls t v st \<le> Suc (validateText_calls st)"
  by (simp_all add: memo_calls_def)

lemma memo_hit_self:
  "memo st = Some (t, v, r) \<Longrightarrow> memo_hit t v st"
  by (simp add: memo_hit_def)

lemma validate_calls_le:
  "validateText_calls (snd (validate E st)) \<le> Suc (validateText_calls st)"
proof (cases "pending st \<and> applies E st \<and> onChange st")
  case True
  then have "memo_hit (text (flush E st)) (validator (flush E st)) (flush E st)"
    by (simp add: memo_hit_def flush_memo flush_text applies_def del: not_None_eq)
  then have "validateText_calls (snd (validate E st)) = validateText_calls (flush E st)"
    by (simp add: validate_flush memo_calls_def)
  with True show ?thesis by (simp add: flush_calls memo_calls_bounds)
next
  case False
  then have "validateText_calls (flush E st) = validateText_calls st"
    by (auto simp: flush_calls)
  then show ?thesis
    using memo_calls_bounds(2) [of "text (flush E st)" "validator st" "flush E st"]
    by (simp add: validate_flush)
qed

lemma validate_again:
  "validate E (snd (validate E st)) = (fst (validate E st), snd (validate E st))"
proof -
  let ?s = "snd (validate E st)"
  have idle: "\<not> pending ?s" by simp
  have m: "memo ?s = Some (text ?s, validator ?s, fst (validate E st))"
    by (simp add: validate_memo)
  have r: "memo_result E (text ?s) (validator ?s) ?s = fst (validate E st)"
    by (simp add: memo_result_def m)
  have h: "memo_hit (text ?s) (validator ?s) ?s" by (rule memo_hit_self [OF m])
  have v: "validated E ?s = ?s"
    unfolding validated_def r memo_calls_def using h m
    by (simp add: validate_flush)
  show ?thesis by (simp only: validate_idle [OF idle] r v)
qed

text \<open>\<open>emitOnChange\<close> on any state.\<close>

lemma emitOnChange_eq:
  "emitOnChange E t p st =
     (if onChange st
      then (snd (validate E st))\<lparr>events := events (flush E st) @
             [\<lparr>current = t, previous = p, contentErrors = fst (validate E st)\<rparr>]\<rparr>
      else st)"
  by (subst emitOnChange.simps) (simp add: split_beta)

lemma emitOnChange_props [simp]:
  "readOnly (emitOnChange E t p st) = readOnly st"
  "indentation (emitOnChange E t p st) = indentation st"
  "escapeUnicodeCharacters (emitOnChange E t p st) = escapeUnicodeCharacters st"
  "validator (emitOnChange E t p st) = validator st"
  "onChange (emitOnChange E t p st) = onChange st"
  "codeMirrorView (emitOnChange E t p st) = codeMirrorView st"
  "onChangeDisabled (emitOnChange E t p st) = onChangeDisabled st"
  "acceptTooLarge (emitOnChange E t p st) = acceptTooLarge st"
  "modalOpen (emitOnChange E t p st) = modalOpen st"
  "reported (emitOnChange E t p st) = reported st"
  "modal_calls (emitOnChange E t p st) = modal_calls st"
  by (simp_all add: emitOnChange_eq)

lemma emitOnChange_idle_fields:
  "\<not> pending st \<Longrightarrow> text (emitOnChange E t p st) = text st"
  "\<not> pending st \<Longrightarrow> pending (emitOnChange E t p st) = False"
  "\<not> pending st \<Longrightarrow>
   events (emitOnChange E t p st) =
     (if onChange st
      then events st @ [\<lparr>current = t, previous = p, contentErrors = fst (validate E st)\<rparr>]
      else events st)"
  by (simp_all add: emitOnChange_eq flush_idle)

lemma memo_sound_emitOnChange:
  "memo_sound E st \<Longrightarrow> memo_sound E (emitOnChange E t p st)"
  using memo_sound_validate [of E st]
  by (simp add: emitOnChange_eq memo_sound_def)

section \<open>The commands in closed form\<close>

lemma onError_fields [simp]:
  "text (onError err st) = text st"
  "readOnly (onError err st) = readOnly st"
  "indentation (onError err st) = indentation st"
  "pending (onError err st) = pending st"
  "events (onError err st) = events st"
  "reported (onError err st) = reported st @ [err]"
  by (simp_all add: onError_def)

lemma handleFormat_readOnly: "readOnly st \<Longrightarrow> handleFormat E st = st"
  by (simp add: handleFormat_def)

lemma handleFormat_error:
  "\<not> readOnly st \<Longrightarrow> JSON_parse E (text st) = Inl err \<Longrightarrow> handleFormat E st = onError err st"
  by (simp add: handleFormat_def)

lemma handleFormat_unchanged:
  "\<not> readOnly st \<Longrightarrow> JSON_parse E (text st) = Inr j \<Longrightarrow>
   JSON_stringify E j (Some (indentation st)) = text st \<Longrightarrow> handleFormat E st = st"
  by (simp add: handleFormat_def)

lemma handleFormat_changed:
  "\<not> readOnly st \<Longrightarrow> JSON_parse E (text st) = Inr j \<Longrightarrow>
   JSON_stringify E j (Some (indentation st)) \<noteq> text st \<Longrightarrow>
   handleFormat E st =
     emitOnChange E (JSON_stringify E j (Some (indentation st))) (text st)
       (st\<lparr>text := JSON_stringify E j (Some (indentation st))\<rparr>)"
  by (simp add: handleFormat_def)

lemma handleFormat_idle:
  assumes "\<not> pending st" "\<not> readOnly st" "JSON_parse E (text st) = Inr j"
  shows "text (handleFormat E st) = JSON_stringify E j (Some (indentation st))"
    and "\<not> pending (handleFormat E st)"
    and "\<not> readOnly (handleFormat E st)"
    and "indentation (handleFormat E st) = indentation st"
proof -
  show "text (handleFormat E st) = JSON_stringify E j (Some (indentation st))"
    using assms
    by (cases "JSON_stringify E j (Some (indentation st)) = text st")
       (simp_all add: handleFormat_unchanged handleFormat_changed emitOnChange_idle_fields)
  show "\<not> pending (handleFormat E st)"
    using assms
    by (cases "JSON_stringify E j (Some (indentation st)) = text st")
       (simp_all add: handleFormat_unchanged handleFormat_changed emitOnChange_idle_fields)
  show "\<not> readOnly (handleFormat E st)"
    using assms
    by (cases "JSON_stringify E j (Some (indentation st)) = text st")
       (simp_all add: handleFormat_unchanged handleFormat_changed)
  show "indentation (handleFormat E st) = indentation st"
    using assms
    by (cases "JSON_stringify E j (Some (indentation st)) = text st")
       (simp_all add: handleFormat_unchanged handleFormat_changed)
qed

lemma patch_Inr:
  assumes "patch E operations st = Inr (res, st')"
  shows "JSON_parse E (text st) = Inr (result_previousJson res)"
    and "immutableJSONPatch E (result_previousJson res) operations = Inr (result_json res)"
    and "revertJSONPatch E (result_previousJson res) operations = Inr (result_undo res)"
    and "result_redo res = operations"
    and "st' =
      (if JSON_stringify E (result_json res) (Some (indentation st)) \<noteq> text st
       then emitOnChange E (JSON_stringify E (result_json res) (Some (indentation st))) (text st)
              (st\<lparr>text := JSON_stringify E (result_json res) (Some (indentation st))\<rparr>)
       else st\<lparr>text := JSON_stringify E (result_json res) (Some (indentation st))\<rparr>)"
proof -
  from assms obtain pj where 1: "JSON_parse E (text st) = Inr pj"
    by (cases "JSON_parse E (text st)") (simp_all add: patch_def)
  from assms 1 obtain uj where 2: "immutableJSONPatch E pj operations = Inr uj"
    by (cases "immutableJSONPatch E pj operations") (simp_all add: patch_def)
  from assms 1 2 obtain un where 3: "revertJSONPatch E pj operations = Inr un"
    by (cases "revertJSONPatch E pj operations") (simp_all add: patch_def)
  have eq0: "patch E operations st =
      Inr (\<lparr>result_json = uj, result_previousJson = pj, result_undo = un,
             result_redo = operations\<rparr>,
           (if JSON_stringify E uj (Some (indentation st)) \<noteq> text st
            then emitOnChange E (JSON_stringify E uj (Some (indentation st))) (text st)
                   (st\<lparr>text := JSON_stringify E uj (Some (indentation st))\<rparr>)
            else st\<lparr>text := JSON_stringify E uj (Some (indentation st))\<rparr>))"
    using 1 2 3 by (simp add: patch_def Let_def)
  with assms have res:
    "res = \<lparr>result_json = uj, result_previousJson = pj, result_undo = un,
            result_redo = operations\<rparr>"
    by simp
  from res 1 show "JSON_parse E (text st) = Inr (result_previousJson res)" by simp
  from res 2 show "immutableJSONPatch E (result_previousJson res) operations = Inr (result_json res)"
    by simp
  from res 3 show "revertJSONPatch E (result_previousJson res) operations = Inr (result_undo res)"
    by simp
  from res show "result_redo res = operations" by simp
  have eq: "patch E operations st =
      Inr (\<lparr>result_json = uj, result_previousJson = pj, result_undo = un,
             result_redo = operations\<rparr>,
           (if JSON_stringify E uj (Some (indentation st)) \<noteq> text st
            then emitOnChange E (JSON_stringify E uj (Some (indentation st))) (text st)
                   (st\<lparr>text := JSON_stringify E uj (Some (indentation st))\<rparr>)
            else st\<lparr>text := JSON_stringify E uj (Some (indentation st))\<rparr>))"
    using 1 2 3 by (simp add: patch_def Let_def)
  with assms res show "st' =
      (if JSON_stringify E (result_json res) (Some (indentation st)) \<noteq> text st
       then emitOnChange E (JSON_stringify E (result_json res) (Some (indentation st))) (text st)
              (st\<lparr>text := JSON_stringify E (result_json res) (Some (indentation st))\<rparr>)
       else st\<lparr>text := JSON_stringify E (result_json res) (Some (indentation st))\<rparr>)"
    by (simp split: if_split_asm)
qed

lemma linterCallback_eq:
  "linterCallback E st =
     (case fst (validate E st) of
        ContentParseError parseError isRepairable \<Rightarrow>
          (Inr [toDiagnostic (toRichParseError (snd (validate E st)) parseError isRepairable)],
           snd (validate E st))
      | ContentValidationErrors errs \<Rightarrow>
          (case map_throwing (toRichValidationError E (snd (validate E st))) errs of
             Inl e \<Rightarrow> (Inl e, snd (validate E st))
           | Inr rich \<Rightarrow> (Inr (map toDiagnostic rich), snd (validate E st))))"
  by (simp add: linterCallback_def split_beta)

lemma linterCallback_state: "snd (linterCallback E st) = snd (validate E st)"
  by (simp add: linterCallback_eq split: ContentErrors.split sum.split)

lemma onChangeCodeMirrorValue_eq:
  "onChangeCodeMirrorValue E st =
     (if onChangeDisabled st \<or> codeMirrorView st = None then st
      else if getCodeMirrorValue E st = text st then st\<lparr>codeMirrorText := Some (text st)\<rparr>
      else emitOnChange E (getCodeMirrorValue E st) (getCodeMirrorValue E st) (synced E st))"
  by (subst onChangeCodeMirrorValue.simps) (simp add: synced_def Let_def)

section \<open>The invariant of the reachable states\<close>

lemma inv_fields [simp]:
  "component_inv E (st\<lparr>text := t\<rparr>) = component_inv E st"
  "component_inv E (st\<lparr>readOnly := r\<rparr>) = component_inv E st"
  "component_inv E (st\<lparr>indentation := i\<rparr>) = component_inv E st"
  "component_inv E (st\<lparr>escapeUnicodeCharacters := u\<rparr>) = component_inv E st"
  "component_inv E (st\<lparr>validator := v\<rparr>) = component_inv E st"
  "component_inv E (st\<lparr>onChange := c\<rparr>) = component_inv E st"
  "component_inv E (st\<lparr>codeMirrorText := ct\<rparr>) = component_inv E st"
  "component_inv E (st\<lparr>acceptTooLarge := a\<rparr>) = component_inv E st"
  "component_inv E (st\<lparr>modalOpen := m\<rparr>) = component_inv E st"
  "component_inv E (st\<lparr>jsonStatus := js\<rparr>) = component_inv E st"
  "component_inv E (st\<lparr>jsonParseError := jp\<rparr>) = component_inv E st"
  "component_inv E (st\<lparr>events := es\<rparr>) = component_inv E st"
  "component_inv E (st\<lparr>reported := rs\<rparr>) = component_inv E st"
  "component_inv E (st\<lparr>modal_calls := ms\<rparr>) = component_inv E st"
  by (simp_all add: component_inv_def memo_sound_def)

lemma inv_updateCanUndoRedo [simp]:
  "component_inv E (updateCanUndoRedo st) = component_inv E st"
  by (simp add: component_inv_def memo_sound_def)

lemma inv_init: "component_inv E (init t listening)"
  by (simp add: component_inv_def memo_sound_def init_def)

lemma inv_onMount: "component_inv E st \<Longrightarrow> component_inv E (onMount E st)"
  by (simp add: component_inv_def memo_sound_def onMount_def createCodeMirrorView_def)

lemma inv_transaction: "component_inv E st \<Longrightarrow> component_inv E (transaction d c st)"
  by (cases "codeMirrorView st")
     (simp_all add: component_inv_def memo_sound_def transaction_def
        onChangeCodeMirrorValueDebounced_def Let_def)

lemma inv_setCodeMirrorValue:
  "component_inv E st \<Longrightarrow> component_inv E (setCodeMirrorValue E t force st)"
  by (cases "codeMirrorView st")
     (simp_all add: setCodeMirrorValue_def Let_def inv_transaction)

lemma inv_flush: "component_inv E st \<Longrightarrow> component_inv E (flush E st)"
  using memo_sound_flush [of E st] by (simp add: component_inv_def)

lemma inv_validate: "component_inv E st \<Longrightarrow> component_inv E (snd (validate E st))"
  using memo_sound_validate [of E st] by (simp add: component_inv_def)

lemma inv_emitOnChange: "component_inv E st \<Longrightarrow> component_inv E (emitOnChange E t p st)"
  using inv_validate [of E st] by (simp add: emitOnChange_eq)

lemma inv_synced [simp]: "component_inv E (synced E st) = component_inv E st"
  by (simp add: synced_def)

lemma inv_onChangeCodeMirrorValue:
  "component_inv E st \<Longrightarrow> component_inv E (onChangeCodeMirrorValue E st)"
  by (simp add: onChangeCodeMirrorValue_eq inv_emitOnChange)

lemma inv_onError [simp]: "component_inv E (onError err st) = component_inv E st"
  by (simp add: onError_def)

lemma inv_handleFormat: "component_inv E st \<Longrightarrow> component_inv E (handleFormat E st)"
  by (simp add: handleFormat_def Let_def inv_emitOnChange split: sum.split)

lemma inv_handleCompact: "component_inv E st \<Longrightarrow> component_inv E (handleCompact E st)"
  by (simp add: handleCompact_def Let_def inv_emitOnChange split: sum.split)

lemma inv_handleRepair: "component_inv E st \<Longrightarrow> component_inv E (handleRepair E st)"
  by (simp add: handleRepair_def Let_def inv_emitOnChange split: sum.split)

lemma inv_handleSort: "component_inv E st \<Longrightarrow> component_inv E (handleSort E st)"
  by (simp add: handleSort_def Let_def split: sum.split option.split)

lemma inv_openTransformModal:
  "component_inv E st \<Longrightarrow> component_inv E (openTransformModal E p preview st)"
  by (simp add: openTransformModal_def Let_def split: sum.split option.split)

lemma inv_patch:
  "patch E operations st = Inr (res, st') \<Longrightarrow> component_inv E st \<Longrightarrow> component_inv E st'"
  using patch_Inr(5) [of E operations st res st'] by (simp add: inv_emitOnChange)

lemma inv_linterCallback: "component_inv E st \<Longrightarrow> component_inv E (snd (linterCallback E st))"
  using inv_validate [of E st] by (simp add: linterCallback_state)

lemma inv_refresh: "refresh st = Inr st' \<Longrightarrow> component_inv E st \<Longrightarrow> component_inv E st'"
  by (cases "codeMirrorView st") (auto simp: refresh_def inv_transaction)

lemma inv_modal_onTransform:
  "modal_onTransform E preview json operations st = Inr (x, st') \<Longrightarrow>
   component_inv E st \<Longrightarrow> component_inv E st'"
  by (auto simp: modal_onTransform_def inv_patch split: if_splits sum.splits)

lemma reachable_inv: "reachable E st \<Longrightarrow> component_inv E st"
proof (induction rule: reachable.induct)
  case (created t listening)
  show ?case by (rule inv_init)
next
  case (patched st operations res st')
  then show ?case by (simp add: inv_patch)
next
  case (refreshed st st')
  then show ?case by (simp add: inv_refresh)
next
  case (transformed st preview json operations x st')
  then show ?case by (simp add: inv_modal_onTransform)
qed (simp_all add: inv_onMount inv_transaction timerExpired_def inv_flush
      reactive_setCodeMirrorValue_def inv_setCodeMirrorValue inv_validate inv_linterCallback
      inv_handleFormat inv_handleCompact inv_handleRepair inv_handleSort inv_openTransformModal
      modal_onClose_def handleAcceptTooLarge_def Let_def cancelLoadTooLarge_def
      inv_onChangeCodeMirrorValue)

section \<open>Values in the environment \<open>E0\<close>\<close>

text \<open>Values of the parser, the serializer and the patch functions that the runs use.\<close>

lemma parse_12: "parse ''[1,2]'' = Inr (JArray [JNumber 1, JNumber 2])"
  by code_simp

lemma parse_1: "parse ''[1]'' = Inr (JArray [JNumber 1])"
  by code_simp

lemma parse_123: "parse ''[1,2,3]'' = Inr (JArray [JNumber 1, JNumber 2, JNumber 3])"
  by code_simp

lemma parse_trailing_comma: "parse ''[1,2,]'' = Inl (SyntaxError ''Unexpected token in JSON'')"
  by code_simp

lemma repair_trailing_comma: "repair ''[1,2,]'' = Inr ''[1,2]''"
  by code_simp

lemma stringify_12:
  "stringify (JArray [JNumber 1, JNumber 2]) (Some (IndentNumber 2)) = ''[\<newline>  1,\<newline>  2\<newline>]''"
  by code_simp

lemma parse_formatted_12:
  "parse ''[\<newline>  1,\<newline>  2\<newline>]'' = Inr (JArray [JNumber 1, JNumber 2])"
  by code_simp

lemma stringify_123:
  "stringify (JArray [JNumber 1, JNumber 2, JNumber 3]) (Some (IndentNumber 2))
     = ''[\<newline>  1,\<newline>  2,\<newline>  3\<newline>]''"
  by code_simp

lemma parse_formatted_123:
  "parse ''[\<newline>  1,\<newline>  2,\<newline>  3\<newline>]''
     = Inr (JArray [JNumber 1, JNumber 2, JNumber 3])"
  by code_simp

lemma patch_values:
  "apply_operations (JArray [JNumber 1, JNumber 2]) [Replace [''0''] (JNumber 5)]
     = Inr (JArray [JNumber 5, JNumber 2])"
  "revert_operations (JArray [JNumber 1, JNumber 2]) [Replace [''0''] (JNumber 5)]
     = Inr [Replace [''0''] (JNumber 1)]"
  "stringify (JArray [JNumber 5, JNumber 2]) (Some (IndentNumber 2)) = ''[\<newline>  5,\<newline>  2\<newline>]''"
  "apply_operations (JArray [JNumber 5, JNumber 2]) [Replace [''0''] (JNumber 1)]
     = Inr (JArray [JNumber 1, JNumber 2])"
  by code_simp+



lemma escape_values:
  "parse ''[2,1]'' = Inr (JArray [JNumber 2, JNumber 1])"
  "parse ''[2,1'' = Inl (SyntaxError ''Unexpected token in JSON'')"
  "apply_operations (JArray [JNumber 2, JNumber 1]) [Replace [''0'', ''x''] (JNumber 1)]
     = Inl (PatchError ''Path does not exist'')"
  "child (JArray [JNumber 1, JNumber 2]) ''b'' = JUndefined"
  "existsIn (JArray [JNumber 1, JNumber 2]) [''b''] = False"
  by code_simp+

lemma spaced_values:
  "parse ''[1, 2]'' = Inr (JArray [JNumber 1, JNumber 2])"
  "parse ''[1, 2, 3]'' = Inr (JArray [JNumber 1, JNumber 2, JNumber 3])"
  "stringify (JArray [JNumber 1, JNumber 2]) None = ''[1,2]''"
  by code_simp+

lemma E0_sel:
  "JSON_parse E0 = parse"
  "JSON_stringify E0 = stringify"
  "jsonrepair E0 = repair"
  "immutableJSONPatch E0 = apply_operations"
  "revertJSONPatch E0 = revert_operations"
  by (simp_all add: E0_def)

lemmas E0_simps = E0_def init_def onMount_def createCodeMirrorView_def textEditorDisabled_def
  tooLarge_def transaction_def onChangeCodeMirrorValueDebounced_def getCodeMirrorValue_def
  validateText_def memo_result_def memo_calls_def memo_hit_def memo_sound_def

lemmas run_simps = E0_simps validate_flush flush_eq emitOnChange_eq handleFormat_def
  synced_def updateCanUndoRedo_def validated_def status_of_def parseError_of_def
  validationErrors_of_def applies_def Let_def
  parse_12 parse_1 parse_123 stringify_12 stringify_123 parse_formatted_12 parse_formatted_123

section \<open>Validation outcome\<close>

text \<open>
  Claim C9. After every call of \<open>validate\<close> the stored outcome is one of two
  variants. Either the result is a parse error: then \<open>jsonParseError\<close> holds it,
  \<open>jsonStatus\<close> is repairable or invalid, and \<open>validationErrors\<close> is empty. Or the
  result is a list of validation errors: then \<open>jsonParseError\<close> is null,
  \<open>jsonStatus\<close> is valid, and \<open>validationErrors\<close> is that list. So a parse error
  and validation errors are never stored together.
\<close>

theorem validate_outcome_exclusive:
  "(case fst (validate E st) of
      ContentParseError parseError isRepairable \<Rightarrow>
        jsonParseError (snd (validate E st)) = Some parseError
        \<and> jsonStatus (snd (validate E st))
            = (if isRepairable then JSON_STATUS_REPAIRABLE else JSON_STATUS_INVALID)
        \<and> validationErrors (snd (validate E st)) = []
    | ContentValidationErrors errs \<Rightarrow>
        jsonParseError (snd (validate E st)) = None
        \<and> jsonStatus (snd (validate E st)) = JSON_STATUS_VALID
        \<and> validationErrors (snd (validate E st)) = errs)
   \<and> (jsonParseError (snd (validate E st)) = None
        \<or> validationErrors (snd (validate E st)) = [])"
  by (simp add: validate_flush validated_def status_of_def parseError_of_def
        validationErrors_of_def split: ContentErrors.split)

theorem validate_outcome_exclusive_witness:
  "jsonParseError (snd (validate E0 (init ''[1,2,]'' False)))
     = Some \<lparr>pe_position = None, pe_line = None, pe_column = None,
             pe_message = ''Unexpected token in JSON''\<rparr>
   \<and> jsonStatus (snd (validate E0 (init ''[1,2,]'' False))) = JSON_STATUS_REPAIRABLE
   \<and> validationErrors (snd (validate E0 (init ''[1,2,]'' False))) = []"
  using validate_outcome_exclusive [of E0 "init ''[1,2,]'' False"]
  by (simp add: validate_idle init_def memo_result_def validateText_def E0_def
        parse_trailing_comma repair_trailing_comma)

section \<open>Memoized validation\<close>

lemma validate_other_pair:
  assumes idle: "\<not> pending s" and m: "memo s = Some (t0, v0, r0)"
    and ne: "(t, v) \<noteq> (t0, v0)"
  shows "validateText_calls (snd (validate E (s\<lparr>text := t, validator := v\<rparr>)))
           = Suc (validateText_calls s)"
    and "fst (validate E (s\<lparr>text := t, validator := v\<rparr>)) = validateText E t v"
proof -
  from ne have c: "\<not> (t0 = t \<and> v0 = v)" by auto
  show "validateText_calls (snd (validate E (s\<lparr>text := t, validator := v\<rparr>)))
           = Suc (validateText_calls s)"
    using idle m by (simp add: validate_idle memo_calls_def memo_hit_def if_not_P [OF c])
  show "fst (validate E (s\<lparr>text := t, validator := v\<rparr>)) = validateText E t v"
    using idle m by (simp add: validate_idle memo_result_def if_not_P [OF c])
qed

text \<open>
  Claim C5. \<open>validate\<close> called twice in a row returns the same result both times, the
  second call does not run \<open>validateText\<close>, and the first call runs it at most once.
  After a call, a call with a pair of text and validator that differs from the previous
  pair in either component runs \<open>validateText\<close> once and returns its result; and
  since only the last pair is kept, returning to the first pair runs it once more.
\<close>

theorem validate_memoized_once:
  "let s1 = snd (validate E st);
       s2 = snd (validate E s1);
       s3 = snd (validate E (s1\<lparr>text := t', validator := v'\<rparr>));
       s4 = snd (validate E (s3\<lparr>text := text s1, validator := validator s1\<rparr>))
   in fst (validate E s1) = fst (validate E st)
      \<and> validateText_calls s2 = validateText_calls s1
      \<and> validateText_calls s1 \<le> Suc (validateText_calls st)
      \<and> ((t', v') \<noteq> (text s1, validator s1) \<longrightarrow>
            validateText_calls s3 = Suc (validateText_calls s1)
            \<and> fst (validate E (s1\<lparr>text := t', validator := v'\<rparr>)) = validateText E t' v'
            \<and> validateText_calls s4 = Suc (Suc (validateText_calls s1)))"
proof -
  let ?s1 = "snd (validate E st)"
  let ?s3 = "snd (validate E (?s1\<lparr>text := t', validator := v'\<rparr>))"
  have again: "validate E ?s1 = (fst (validate E st), ?s1)" by (rule validate_again)
  have le: "validateText_calls ?s1 \<le> Suc (validateText_calls st)" by (rule validate_calls_le)
  have idle1: "\<not> pending ?s1" by simp
  have m1: "memo ?s1 = Some (text ?s1, validator ?s1, fst (validate E st))"
    by (simp add: validate_memo)
  have other: "validateText_calls ?s3 = Suc (validateText_calls ?s1)
      \<and> fst (validate E (?s1\<lparr>text := t', validator := v'\<rparr>)) = validateText E t' v'
      \<and> validateText_calls
            (snd (validate E (?s3\<lparr>text := text ?s1, validator := validator ?s1\<rparr>)))
          = Suc (Suc (validateText_calls ?s1))"
    if ne: "(t', v') \<noteq> (text ?s1, validator ?s1)"
  proof -
    note a = validate_other_pair [OF idle1 m1 ne, of E]
    have idle3: "\<not> pending ?s3" by simp
    have m3: "memo ?s3 = Some (t', v', fst (validate E (?s1\<lparr>text := t', validator := v'\<rparr>)))"
      using idle1 by (simp add: validate_memo flush_idle)
    from ne have ne': "(text ?s1, validator ?s1) \<noteq> (t', v')" by auto
    note b = validate_other_pair [OF idle3 m3 ne', of E]
    from a b show ?thesis by simp
  qed
  show ?thesis
    unfolding Let_def using again le other by (simp del: validate_props)
qed

theorem validate_memoized_once_witness:
  "fst (validate E0 (snd (validate E0 (init ''[1,2]'' False)))) = ContentValidationErrors []
   \<and> validateText_calls (snd (validate E0 (snd (validate E0 (init ''[1,2]'' False))))) = 1
   \<and> validateText_calls
        (snd (validate E0 ((snd (validate E0 (init ''[1,2]'' False)))\<lparr>text := ''[1]'', validator := None\<rparr>)))
       = 2"
  using validate_memoized_once [where E = E0 and st = "init ''[1,2]'' False"
      and t' = "''[1]''" and v' = None]
  by (simp add: Let_def validate_idle flush_idle E0_simps parse_12 parse_1)

section \<open>Validation sees the flushed text\<close>

text \<open>
  Claim C7. In every state the component reaches, \<open>validate\<close> flushes the pending
  debounced update before it validates: afterwards nothing is pending, and when an
  update was pending the canonical text and the text that was validated are the text
  read from the view, not the older canonical text.
\<close>

theorem validate_flushes_first:
  assumes "reachable E st"
  shows "\<not> pending (snd (validate E st))
     \<and> text (snd (validate E st)) = (if pending st then getCodeMirrorValue E st else text st)
     \<and> fst (validate E st)
         = validateText E (if pending st then getCodeMirrorValue E st else text st) (validator st)"
proof -
  from reachable_inv [OF assms] have i: "memo_sound E st" "\<not> onChangeDisabled st"
    "pending st \<longrightarrow> codeMirrorView st \<noteq> None"
    by (simp_all add: component_inv_def)
  have t: "text (snd (validate E st)) = (if pending st then getCodeMirrorValue E st else text st)"
    using i(2,3) by (simp add: flush_text del: not_None_eq)
  show ?thesis
    using validate_result_sound [OF i(1)] t by simp
qed

theorem validate_flushes_first_witness:
  "text (snd (validate E0 (transaction ''[1,2,3]'' True (onMount E0 (init ''[1,2]'' True)))))
     = ''[1,2,3]''
   \<and> fst (validate E0 (transaction ''[1,2,3]'' True (onMount E0 (init ''[1,2]'' True))))
     = ContentValidationErrors []"
proof -
  have "reachable E0 (transaction ''[1,2,3]'' True (onMount E0 (init ''[1,2]'' True)))"
    by (intro reachable.edited reachable.mounted reachable.created) (simp add: init_def)
  from validate_flushes_first [OF this] show ?thesis
    by (simp add: E0_simps parse_123)
qed

section \<open>Format\<close>

text \<open>
  Claim C6 at a concrete run. The canonical text is \<open>[1,2]\<close>; the user types until the
  view holds \<open>[1,2,3]\<close> and triggers Format before the debounce timer fires. Format
  assigns the formatted \<open>[1,2]\<close> and calls \<open>emitOnChange\<close>, whose \<open>validate\<close>
  flushes the debounced callback. The callback is not suppressed, since
  \<open>onChangeDisabled\<close> is never set, and it overwrites the canonical text with the text
  of the view: the text that Format leaves is not formatted. A second Format, run on that
  result, changes the text and emits another change event.
\<close>

theorem format_lost_to_pending_update:
  "reachable E0 (transaction ''[1,2,3]'' True (onMount E0 (init ''[1,2]'' True)))
   \<and> text (handleFormat E0 (transaction ''[1,2,3]'' True (onMount E0 (init ''[1,2]'' True))))
     = ''[1,2,3]''
   \<and> text (handleFormat E0 (handleFormat E0
        (transaction ''[1,2,3]'' True (onMount E0 (init ''[1,2]'' True)))))
     = ''[\<newline>  1,\<newline>  2,\<newline>  3\<newline>]''
   \<and> length (events (handleFormat E0
        (transaction ''[1,2,3]'' True (onMount E0 (init ''[1,2]'' True))))) = 2
   \<and> length (events (handleFormat E0 (handleFormat E0
        (transaction ''[1,2,3]'' True (onMount E0 (init ''[1,2]'' True)))))) = 3"
proof -
  have "reachable E0 (transaction ''[1,2,3]'' True (onMount E0 (init ''[1,2]'' True)))"
    by (intro reachable.edited reachable.mounted reachable.created) (simp add: init_def)
  then show ?thesis by (simp add: run_simps)
qed

section \<open>Read-only documents and oversize documents\<close>

text \<open>The size limit and \<open>acceptTooLarge\<close> play no part in the change path.\<close>

lemma size_free_basics [simp]:
  "validateText (E\<lparr>MAX_DOCUMENT_SIZE_TEXT_MODE := n\<rparr>) t v = validateText E t v"
  "getCodeMirrorValue (E\<lparr>MAX_DOCUMENT_SIZE_TEXT_MODE := n\<rparr>) st = getCodeMirrorValue E st"
  "getCodeMirrorValue E (st\<lparr>acceptTooLarge := a\<rparr>) = getCodeMirrorValue E st"
  "getCodeMirrorValue E (st\<lparr>text := t\<rparr>) = getCodeMirrorValue E st"
  by (simp_all add: validateText_def getCodeMirrorValue_def split: sum.split option.split)

lemma size_free_memo_result [simp]:
  "memo_result (E\<lparr>MAX_DOCUMENT_SIZE_TEXT_MODE := n\<rparr>) t v st = memo_result E t v st"
  by (simp add: memo_result_def split: option.split)

lemma memo_result_cong:
  "memo st' = memo st \<Longrightarrow> memo_result E t v st' = memo_result E t v st"
  by (simp add: memo_result_def)

lemma applies_cong:
  "onChangeDisabled st' = onChangeDisabled st \<Longrightarrow> codeMirrorView st' = codeMirrorView st \<Longrightarrow>
   getCodeMirrorValue E' st' = getCodeMirrorValue E st \<Longrightarrow> text st' = text st \<Longrightarrow>
   applies E' st' = applies E st"
  by (simp add: applies_def)

lemma size_free_flush:
  "text (flush (E\<lparr>MAX_DOCUMENT_SIZE_TEXT_MODE := n\<rparr>) (st\<lparr>acceptTooLarge := a, text := t\<rparr>))
     = text (flush E (st\<lparr>text := t\<rparr>))"
  "events (flush (E\<lparr>MAX_DOCUMENT_SIZE_TEXT_MODE := n\<rparr>) (st\<lparr>acceptTooLarge := a, text := t\<rparr>))
     = events (flush E (st\<lparr>text := t\<rparr>))"
  "memo (flush (E\<lparr>MAX_DOCUMENT_SIZE_TEXT_MODE := n\<rparr>) (st\<lparr>acceptTooLarge := a, text := t\<rparr>))
     = memo (flush E (st\<lparr>text := t\<rparr>))"
  by (simp_all add: flush_text flush_events flush_memo applies_def
        memo_result_cong [of "st\<lparr>acceptTooLarge := a, text := t\<rparr>" "st\<lparr>text := t\<rparr>"]
        del: not_None_eq)

lemma size_free_emitOnChange:
  "text (emitOnChange (E\<lparr>MAX_DOCUMENT_SIZE_TEXT_MODE := n\<rparr>) t p (st\<lparr>acceptTooLarge := a, text := t\<rparr>))
     = text (emitOnChange E t p (st\<lparr>text := t\<rparr>))"
  "events (emitOnChange (E\<lparr>MAX_DOCUMENT_SIZE_TEXT_MODE := n\<rparr>) t p (st\<lparr>acceptTooLarge := a, text := t\<rparr>))
     = events (emitOnChange E t p (st\<lparr>text := t\<rparr>))"
  by (simp_all add: emitOnChange_eq validate_flush size_free_flush
        memo_result_cong [of "flush (E\<lparr>MAX_DOCUMENT_SIZE_TEXT_MODE := n\<rparr>) (st\<lparr>acceptTooLarge := a, text := t\<rparr>)"
           "flush E (st\<lparr>text := t\<rparr>)"])

lemma size_free_handleFormat:
  "text (handleFormat (E\<lparr>MAX_DOCUMENT_SIZE_TEXT_MODE := n\<rparr>) (st\<lparr>acceptTooLarge := a\<rparr>))
     = text (handleFormat E st)"
  "events (handleFormat (E\<lparr>MAX_DOCUMENT_SIZE_TEXT_MODE := n\<rparr>) (st\<lparr>acceptTooLarge := a\<rparr>))
     = events (handleFormat E st)"
  by (simp_all add: handleFormat_def Let_def size_free_emitOnChange onError_def split: sum.split)

lemma size_free_handleCompact:
  "text (handleCompact (E\<lparr>MAX_DOCUMENT_SIZE_TEXT_MODE := n\<rparr>) (st\<lparr>acceptTooLarge := a\<rparr>))
     = text (handleCompact E st)"
  "events (handleCompact (E\<lparr>MAX_DOCUMENT_SIZE_TEXT_MODE := n\<rparr>) (st\<lparr>acceptTooLarge := a\<rparr>))
     = events (handleCompact E st)"
  by (simp_all add: handleCompact_def Let_def size_free_emitOnChange onError_def split: sum.split)

lemma size_free_handleSort:
  "text (handleSort (E\<lparr>MAX_DOCUMENT_SIZE_TEXT_MODE := n\<rparr>) (st\<lparr>acceptTooLarge := a\<rparr>))
     = text (handleSort E st)"
  "events (handleSort (E\<lparr>MAX_DOCUMENT_SIZE_TEXT_MODE := n\<rparr>) (st\<lparr>acceptTooLarge := a\<rparr>))
     = events (handleSort E st)"
  by (simp_all add: handleSort_def Let_def onError_def split: sum.split option.split)

lemma size_free_handleTransform:
  "text (handleTransform (E\<lparr>MAX_DOCUMENT_SIZE_TEXT_MODE := n\<rparr>) (st\<lparr>acceptTooLarge := a\<rparr>))
     = text (handleTransform E st)"
  "events (handleTransform (E\<lparr>MAX_DOCUMENT_SIZE_TEXT_MODE := n\<rparr>) (st\<lparr>acceptTooLarge := a\<rparr>))
     = events (handleTransform E st)"
  by (simp_all add: handleTransform_def openTransformModal_def Let_def onError_def
        split: sum.split option.split)

text \<open>
  Claim C2, as amended. In a read-only document each of Format, Compact, Sort and
  Transform returns at once: the component state, and so the canonical text and the
  list of emitted change events, is unchanged. The size of the text plays no part: the
  canonical text and the change events that a command leaves behind are the same
  whatever the size limit is and whether or not the user has accepted the size.
\<close>

theorem commands_refuse_when_readOnly:
  "(readOnly st \<longrightarrow>
      handleFormat E st = st \<and> handleCompact E st = st \<and> handleSort E st = st
      \<and> handleTransform E st = st)
   \<and> text (handleFormat (E\<lparr>MAX_DOCUMENT_SIZE_TEXT_MODE := n\<rparr>) (st\<lparr>acceptTooLarge := a\<rparr>))
       = text (handleFormat E st)
   \<and> events (handleFormat (E\<lparr>MAX_DOCUMENT_SIZE_TEXT_MODE := n\<rparr>) (st\<lparr>acceptTooLarge := a\<rparr>))
       = events (handleFormat E st)
   \<and> text (handleCompact (E\<lparr>MAX_DOCUMENT_SIZE_TEXT_MODE := n\<rparr>) (st\<lparr>acceptTooLarge := a\<rparr>))
       = text (handleCompact E st)
   \<and> events (handleCompact (E\<lparr>MAX_DOCUMENT_SIZE_TEXT_MODE := n\<rparr>) (st\<lparr>acceptTooLarge := a\<rparr>))
       = events (handleCompact E st)
   \<and> text (handleSort (E\<lparr>MAX_DOCUMENT_SIZE_TEXT_MODE := n\<rparr>) (st\<lparr>acceptTooLarge := a\<rparr>))
       = text (handleSort E st)
   \<and> events (handleSort (E\<lparr>MAX_DOCUMENT_SIZE_TEXT_MODE := n\<rparr>) (st\<lparr>acceptTooLarge := a\<rparr>))
       = events (handleSort E st)
   \<and> text (handleTransform (E\<lparr>MAX_DOCUMENT_SIZE_TEXT_MODE := n\<rparr>) (st\<lparr>acceptTooLarge := a\<rparr>))
       = text (handleTransform E st)
   \<and> events (handleTransform (E\<lparr>MAX_DOCUMENT_SIZE_TEXT_MODE := n\<rparr>) (st\<lparr>acceptTooLarge := a\<rparr>))
       = events (handleTransform E st)"
proof -
  have "handleFormat E st = st \<and> handleCompact E st = st \<and> handleSort E st = st
      \<and> handleTransform E st = st" if "readOnly st"
    using that
    by (simp add: handleFormat_def handleCompact_def handleSort_def handleTransform_def)
  then show ?thesis
    by (simp only: size_free_handleFormat size_free_handleCompact size_free_handleSort
          size_free_handleTransform) simp
qed

theorem commands_refuse_when_readOnly_witness:
  "handleFormat E0 ((onMount E0 (init ''[1,2]'' True))\<lparr>readOnly := True\<rparr>)
     = (onMount E0 (init ''[1,2]'' True))\<lparr>readOnly := True\<rparr>
   \<and> events (handleSort E0 ((onMount E0 (init ''[1,2]'' True))\<lparr>readOnly := True\<rparr>)) = []"
  using commands_refuse_when_readOnly
    [of "(onMount E0 (init ''[1,2]'' True))\<lparr>readOnly := True\<rparr>" E0]
  by (simp add: E0_simps)

text \<open>
  The claim as stated fails for a document over the size limit that the user has not
  accepted: none of the commands looks at \<open>tooLarge\<close> or \<open>acceptTooLarge\<close>. With a
  limit of four characters the text \<open>[1,2]\<close> is too large and the editor is disabled,
  and Format still rewrites the text and emits a change event.
\<close>

theorem oversize_format_counterexample:
  "reachable (E0\<lparr>MAX_DOCUMENT_SIZE_TEXT_MODE := 4\<rparr>)
     (onMount (E0\<lparr>MAX_DOCUMENT_SIZE_TEXT_MODE := 4\<rparr>) (init ''[1,2]'' True))
   \<and> textEditorDisabled (E0\<lparr>MAX_DOCUMENT_SIZE_TEXT_MODE := 4\<rparr>)
     (onMount (E0\<lparr>MAX_DOCUMENT_SIZE_TEXT_MODE := 4\<rparr>) (init ''[1,2]'' True))
   \<and> text (handleFormat (E0\<lparr>MAX_DOCUMENT_SIZE_TEXT_MODE := 4\<rparr>)
        (onMount (E0\<lparr>MAX_DOCUMENT_SIZE_TEXT_MODE := 4\<rparr>) (init ''[1,2]'' True)))
     = ''[\<newline>  1,\<newline>  2\<newline>]''
   \<and> map (\<lambda>e. (current e, previous e))
        (events (handleFormat (E0\<lparr>MAX_DOCUMENT_SIZE_TEXT_MODE := 4\<rparr>)
          (onMount (E0\<lparr>MAX_DOCUMENT_SIZE_TEXT_MODE := 4\<rparr>) (init ''[1,2]'' True))))
     = [(''[\<newline>  1,\<newline>  2\<newline>]'', ''[1,2]'')]"
proof -
  have "reachable (E0\<lparr>MAX_DOCUMENT_SIZE_TEXT_MODE := 4\<rparr>)
     (onMount (E0\<lparr>MAX_DOCUMENT_SIZE_TEXT_MODE := 4\<rparr>) (init ''[1,2]'' True))"
    by (intro reachable.mounted reachable.created) (simp add: init_def)
  then show ?thesis by (simp add: run_simps)
qed

section \<open>Patch and its inverse\<close>











section \<open>Patch in a read-only document\<close>

text \<open>
  Claim C10, as amended. \<open>patch\<close> does not look at \<open>readOnly\<close>. In a read-only
  document, when the host passed an \<open>onChange\<close> callback and no debounced update of
  the view is pending, a patch whose result serializes to a text different from the
  current one makes that text the canonical text and emits one change event, from the
  old text to the new one; Format, Compact, Sort and Transform return at once in the same
  state.
\<close>

theorem patch_ignores_readOnly:
  assumes "readOnly st" and "onChange st" and "\<not> pending st"
    and "patch E operations st = Inr (res, st')"
    and "JSON_stringify E (result_json res) (Some (indentation st)) \<noteq> text st"
  shows "text st' = JSON_stringify E (result_json res) (Some (indentation st))
     \<and> events st' = events st @
          [\<lparr>current = JSON_stringify E (result_json res) (Some (indentation st)),
            previous = text st,
            contentErrors = fst (validate E
              (st\<lparr>text := JSON_stringify E (result_json res) (Some (indentation st))\<rparr>))\<rparr>]
     \<and> handleFormat E st = st \<and> handleCompact E st = st \<and> handleSort E st = st
     \<and> handleTransform E st = st"
proof -
  let ?new = "JSON_stringify E (result_json res) (Some (indentation st))"
  from patch_Inr(5) [OF assms(4)] assms(5)
  have st': "st' = emitOnChange E ?new (text st) (st\<lparr>text := ?new\<rparr>)" by simp
  have idle: "\<not> pending (st\<lparr>text := ?new\<rparr>)" using assms(3) by simp
  from emitOnChange_idle_fields [OF idle, of E ?new "text st"] assms(2)
  have "text st' = ?new" and "events st' = events st @
          [\<lparr>current = ?new, previous = text st,
            contentErrors = fst (validate E (st\<lparr>text := ?new\<rparr>))\<rparr>]"
    by (simp_all add: st')
  moreover from assms(1) have "handleFormat E st = st \<and> handleCompact E st = st
      \<and> handleSort E st = st \<and> handleTransform E st = st"
    by (simp add: handleFormat_def handleCompact_def handleSort_def handleTransform_def)
  ultimately show ?thesis by simp
qed

theorem patch_ignores_readOnly_witness:
  "(case patch E0 [Replace [''0''] (JNumber 5)]
           ((onMount E0 (init ''[1,2]'' True))\<lparr>readOnly := True\<rparr>) of
      Inl e \<Rightarrow> False
    | Inr (res, st') \<Rightarrow>
        text st' = ''[\<newline>  5,\<newline>  2\<newline>]''
        \<and> map (\<lambda>e. (current e, previous e)) (events st')
            = [(''[\<newline>  5,\<newline>  2\<newline>]'', ''[1,2]'')])
   \<and> handleFormat E0 ((onMount E0 (init ''[1,2]'' True))\<lparr>readOnly := True\<rparr>)
       = (onMount E0 (init ''[1,2]'' True))\<lparr>readOnly := True\<rparr>"
proof -
  define st :: "JSONValue state"
    where "st = (onMount E0 (init ''[1,2]'' True))\<lparr>readOnly := True\<rparr>"
  have f: "text st = ''[1,2]''" "indentation st = IndentNumber 2" "events st = []"
    and h: "readOnly st" "onChange st" "\<not> pending st"
    by (simp_all add: st_def E0_simps)
  have p: "patch E0 [Replace [''0''] (JNumber 5)] st =
      Inr (\<lparr>result_json = JArray [JNumber 5, JNumber 2],
             result_previousJson = JArray [JNumber 1, JNumber 2],
             result_undo = [Replace [''0''] (JNumber 1)],
             result_redo = [Replace [''0''] (JNumber 5)]\<rparr>,
           emitOnChange E0 ''[\<newline>  5,\<newline>  2\<newline>]'' ''[1,2]''
             (st\<lparr>text := ''[\<newline>  5,\<newline>  2\<newline>]''\<rparr>))"
    by (simp add: patch_def f E0_sel parse_12 patch_values
          del: apply_operations.simps revert_operations.simps)
  have c: "JSON_stringify E0
      (result_json \<lparr>result_json = JArray [JNumber 5, JNumber 2],
             result_previousJson = JArray [JNumber 1, JNumber 2],
             result_undo = [Replace [''0''] (JNumber 1)],
             result_redo = [Replace [''0''] (JNumber 5)]\<rparr>) (Some (indentation st)) \<noteq> text st"
    by (simp add: f E0_sel patch_values)
  from patch_ignores_readOnly [OF h p c] show ?thesis
    by (simp add: p st_def [symmetric] f E0_sel patch_values)
qed

text \<open>
  The claim as stated fails in two ways. With the default \<open>onChange = null\<close> the text
  changes and no event is emitted. And with a debounced call pending, \<open>emitOnChange\<close>
  calls \<open>validate\<close>, whose flush runs the debounced callback while the view still
  shows the old text, so the callback puts the old text back as the canonical text. In
  the second run the host has assigned the text \<open>[1,2]\<close>, Svelte has written it to
  the view, which arms the debounced call, and the host calls \<open>patch\<close> before the
  timer fires: the patch result is \<open>[5,2]\<close> and the canonical text ends as
  \<open>[1,2]\<close>.
\<close>

theorem patch_readOnly_counterexample:
  "reachable E0 ((onMount E0 (init ''[1,2]'' False))\<lparr>readOnly := True\<rparr>)
   \<and> (case patch E0 [Replace [''0''] (JNumber 5)]
           ((onMount E0 (init ''[1,2]'' False))\<lparr>readOnly := True\<rparr>) of
      Inl e \<Rightarrow> False
    | Inr (res, st') \<Rightarrow> text st' = ''[\<newline>  5,\<newline>  2\<newline>]'' \<and> events st' = [])
   \<and> reachable E0 (reactive_setCodeMirrorValue E0
        ((onMount E0 (init ''[1]'' True))\<lparr>text := ''[1,2]'', readOnly := True\<rparr>))
   \<and> (case patch E0 [Replace [''0''] (JNumber 5)]
           (reactive_setCodeMirrorValue E0
              ((onMount E0 (init ''[1]'' True))\<lparr>text := ''[1,2]'', readOnly := True\<rparr>)) of
      Inl e \<Rightarrow> False
    | Inr (res, st') \<Rightarrow>
        result_json res = JArray [JNumber 5, JNumber 2]
        \<and> text st' = ''[1,2]''
        \<and> map (\<lambda>e. (current e, previous e)) (events st')
            = [(''[1,2]'', ''[1,2]''), (''[\<newline>  5,\<newline>  2\<newline>]'', ''[1,2]'')])"
proof -
  have 1: "reachable E0 ((onMount E0 (init ''[1,2]'' False))\<lparr>readOnly := True\<rparr>)"
    by (intro reachable.readOnly_assigned reachable.mounted reachable.created)
       (simp add: init_def)
  have "reachable E0 (((onMount E0 (init ''[1]'' True))\<lparr>text := ''[1,2]''\<rparr>)\<lparr>readOnly := True\<rparr>)"
    by (intro reachable.readOnly_assigned reachable.text_assigned reachable.mounted
          reachable.created) (simp add: init_def)
  then have 2: "reachable E0 (reactive_setCodeMirrorValue E0
        ((onMount E0 (init ''[1]'' True))\<lparr>text := ''[1,2]'', readOnly := True\<rparr>))"
    by (intro reachable.updated) simp
  from 1 2 show ?thesis
    by (simp add: patch_def run_simps patch_values reactive_setCodeMirrorValue_def
          setCodeMirrorValue_def
          del: apply_operations.simps revert_operations.simps)
qed

section \<open>Errors\<close>

text \<open>
  What the commands catch. In a writable document, when \<open>JSON.parse\<close> throws, Format,
  Compact, Sort and Transform pass the exception to \<open>onError\<close> and do nothing else;
  Repair does the same when \<open>jsonrepair\<close> throws; and an exception of the host's modal
  callback is passed to \<open>onError\<close> too. \<open>onError\<close> leaves the text and the change
  events alone.
\<close>

lemma commands_report_exceptions:
  "(\<not> readOnly st \<longrightarrow> JSON_parse E (text st) = Inl err \<longrightarrow>
       handleFormat E st = onError err st \<and> handleCompact E st = onError err st
       \<and> handleSort E st = onError err st \<and> handleTransform E st = onError err st)
   \<and> (\<not> readOnly st \<longrightarrow> jsonrepair E (text st) = Inl err \<longrightarrow>
        handleRepair E st = onError err st)
   \<and> (\<not> readOnly st \<longrightarrow> JSON_parse E (text st) = Inr j \<longrightarrow> onSortModal E j [] = Some err \<longrightarrow>
        handleSort E st
          = onError err (st\<lparr>modalOpen := True,
                             modal_calls := modal_calls st @ [SortModal j []]\<rparr>))
   \<and> (\<not> readOnly st \<longrightarrow> JSON_parse E (text st) = Inr j \<longrightarrow>
        onTransformModal E j [] = Some err \<longrightarrow>
        handleTransform E st
          = onError err (st\<lparr>modalOpen := True,
                             modal_calls := modal_calls st @ [TransformModal j [] False]\<rparr>))
   \<and> text (onError err st) = text st \<and> events (onError err st) = events st
   \<and> reported (onError err st) = reported st @ [err]"
  by (simp add: handleFormat_def handleCompact_def handleSort_def handleTransform_def
        openTransformModal_def handleRepair_def onError_def Let_def)

text \<open>
  Claim C8 at concrete runs. The \<open>try\<close> blocks of Sort and Transform end when the modal
  is open; the callbacks \<open>onSort\<close> and \<open>onTransform\<close> that they hand to the modal
  call \<open>patch\<close> later, outside any \<open>try\<close>. In the first run the user opens the sort
  modal on \<open>[2,1]\<close>, the host assigns a text that does not parse, and the user confirms
  the modal: \<open>JSON.parse\<close> throws inside \<open>patch\<close>, the exception leaves \<open>onSort\<close>,
  and \<open>onError\<close> has been called with nothing. The default \<open>onTransform\<close> of the
  transform modal behaves the same. In the third run the caller of
  \<open>openTransformModal\<close> passed a callback of its own and the modal hands over an
  operation that the library refuses: the exception of \<open>immutableJSONPatch\<close> leaves
  \<open>onTransform\<close>. In the last run the validator reports an error at a path that is not
  in the text; \<open>findTextLocation\<close> returns \<open>null\<close>, and the linter callback throws a
  \<open>TypeError\<close> instead of returning diagnostics.
\<close>

theorem exceptions_escape:
  "reachable E0 ((handleSort E0 (onMount E0 (init ''[2,1]'' True)))\<lparr>text := ''[2,1''\<rparr>)
   \<and> modal_onSort E0 [Replace [''0''] (JNumber 1), Replace [''1''] (JNumber 2)]
        ((handleSort E0 (onMount E0 (init ''[2,1]'' True)))\<lparr>text := ''[2,1''\<rparr>)
       = Inl (SyntaxError ''Unexpected token in JSON'')
   \<and> reported ((handleSort E0 (onMount E0 (init ''[2,1]'' True)))\<lparr>text := ''[2,1''\<rparr>) = []
   \<and> reachable E0 ((handleTransform E0 (onMount E0 (init ''[2,1]'' True)))\<lparr>text := ''[2,1''\<rparr>)
   \<and> modal_onTransform E0 False (JArray [JNumber 2, JNumber 1])
        [Replace [''0''] (JNumber 1), Replace [''1''] (JNumber 2)]
        ((handleTransform E0 (onMount E0 (init ''[2,1]'' True)))\<lparr>text := ''[2,1''\<rparr>)
       = Inl (SyntaxError ''Unexpected token in JSON'')
   \<and> reported ((handleTransform E0 (onMount E0 (init ''[2,1]'' True)))\<lparr>text := ''[2,1''\<rparr>) = []
   \<and> reachable E0 (openTransformModal E0 [] True (onMount E0 (init ''[2,1]'' True)))
   \<and> modal_onTransform E0 True (JArray [JNumber 2, JNumber 1])
        [Replace [''0'', ''x''] (JNumber 1)]
        (openTransformModal E0 [] True (onMount E0 (init ''[2,1]'' True)))
       = Inl (PatchError ''Path does not exist'')
   \<and> reported (openTransformModal E0 [] True (onMount E0 (init ''[2,1]'' True))) = []
   \<and> reachable E0 ((onMount E0 (init ''[1,2]'' True))\<lparr>validator := Some 1\<rparr>)
   \<and> fst (validate E0 ((onMount E0 (init ''[1,2]'' True))\<lparr>validator := Some 1\<rparr>))
       = ContentValidationErrors
           [\<lparr>ve_path = [''b''], ve_message = ''must have required property b'',
             ve_severity = warning\<rparr>]
   \<and> fst (linterCallback E0 ((onMount E0 (init ''[1,2]'' True))\<lparr>validator := Some 1\<rparr>))
       = Inl (TypeError ''Cannot destructure property line of null'')"
proof -
  have 1: "reachable E0 ((handleSort E0 (onMount E0 (init ''[2,1]'' True)))\<lparr>text := ''[2,1''\<rparr>)"
    by (intro reachable.text_assigned reachable.sorting reachable.mounted reachable.created)
       (simp add: init_def)
  have "reachable E0
      ((openTransformModal E0 [] False (onMount E0 (init ''[2,1]'' True)))\<lparr>text := ''[2,1''\<rparr>)"
    by (intro reachable.text_assigned reachable.transforming reachable.mounted
          reachable.created) (simp add: init_def)
  then have 2: "reachable E0
      ((handleTransform E0 (onMount E0 (init ''[2,1]'' True)))\<lparr>text := ''[2,1''\<rparr>)"
    by (simp add: handleTransform_def E0_simps)
  have 3: "reachable E0 (openTransformModal E0 [] True (onMount E0 (init ''[2,1]'' True)))"
    by (intro reachable.transforming reachable.mounted reachable.created) (simp add: init_def)
  have 4: "reachable E0 ((onMount E0 (init ''[1,2]'' True))\<lparr>validator := Some 1\<rparr>)"
    by (intro reachable.validator_assigned reachable.mounted reachable.created)
       (simp add: init_def)
  have 5: "modal_onTransform E0 True (JArray [JNumber 2, JNumber 1])
        [Replace [''0'', ''x''] (JNumber 1)]
        (openTransformModal E0 [] True (onMount E0 (init ''[2,1]'' True)))
       = Inl (PatchError ''Path does not exist'')"
    by (simp add: modal_onTransform_def E0_sel escape_values
          del: apply_operations.simps)
  have 6: "fst (linterCallback E0 ((onMount E0 (init ''[1,2]'' True))\<lparr>validator := Some 1\<rparr>))
       = Inl (TypeError ''Cannot destructure property line of null'')"
    by (simp add: linterCallback_eq toRichValidationError_def run_simps escape_values
          del: existsIn.simps child.simps)
  have 7: "fst (validate E0 ((onMount E0 (init ''[1,2]'' True))\<lparr>validator := Some 1\<rparr>))
       = ContentValidationErrors
           [\<lparr>ve_path = [''b''], ve_message = ''must have required property b'',
             ve_severity = warning\<rparr>]"
    by (simp add: run_simps escape_values del: existsIn.simps child.simps)
  have 8: "reported (openTransformModal E0 [] True (onMount E0 (init ''[2,1]'' True))) = []"
    by (simp add: openTransformModal_def run_simps escape_values)
  from 1 2 3 4 5 6 7 8 show ?thesis
    by (simp add: modal_onSort_def modal_onTransform_def patch_def handleSort_def
          handleTransform_def openTransformModal_def run_simps escape_values)
qed

section \<open>The debounced update\<close>

text \<open>
  Claim C1 at a concrete run. The canonical text is \<open>[1,2]\<close>, the user types until the
  view holds \<open>[1,2,3]\<close>, and the debounce timer fires. One change event is emitted
  whose current text is \<open>[1,2,3]\<close>, but its previous text is \<open>[1,2,3]\<close> as well:
  \<open>onChangeCodeMirrorValue\<close> sets \<open>previousText\<close> from \<open>codeMirrorText\<close>, which
  already holds the new text, where the other commands set it from \<open>text\<close>.
\<close>

theorem debounced_update_previous_text:
  "reachable E0 (transaction ''[1,2,3]'' True (onMount E0 (init ''[1,2]'' True)))
   \<and> text (transaction ''[1,2,3]'' True (onMount E0 (init ''[1,2]'' True))) = ''[1,2]''
   \<and> events (timerExpired E0 (transaction ''[1,2,3]'' True (onMount E0 (init ''[1,2]'' True))))
     = [\<lparr>current = ''[1,2,3]'', previous = ''[1,2,3]'',
         contentErrors = ContentValidationErrors []\<rparr>]"
proof -
  have "reachable E0 (transaction ''[1,2,3]'' True (onMount E0 (init ''[1,2]'' True)))"
    by (intro reachable.edited reachable.mounted reachable.created) (simp add: init_def)
  then show ?thesis by (simp add: timerExpired_def run_simps)
qed

section \<open>The re-entrancy guard\<close>

text \<open>
  Claim C3 at a concrete run. \<open>onChangeDisabled\<close> is tested by
  \<open>onChangeCodeMirrorValue\<close> and never assigned, so it is \<open>False\<close> throughout. The
  user types \<open>[1, 2, 3]\<close> and triggers Compact before the debounce timer fires.
  Compact assigns \<open>[1,2]\<close> and calls \<open>emitOnChange\<close>; while that change is being
  emitted, \<open>validate\<close> flushes the debounced callback, which is not suppressed: it
  overwrites the canonical text and emits a change event of its own, before the event of
  Compact.
\<close>

theorem guard_never_armed:
  "reachable E0 (transaction ''[1, 2, 3]'' True (onMount E0 (init ''[1, 2]'' True)))
   \<and> onChangeDisabled (transaction ''[1, 2, 3]'' True (onMount E0 (init ''[1, 2]'' True)))
       = False
   \<and> map (\<lambda>e. (current e, previous e))
        (events (handleCompact E0 (transaction ''[1, 2, 3]'' True (onMount E0 (init ''[1, 2]'' True)))))
     = [(''[1, 2, 3]'', ''[1, 2, 3]''), (''[1,2]'', ''[1, 2]'')]
   \<and> text (handleCompact E0 (transaction ''[1, 2, 3]'' True (onMount E0 (init ''[1, 2]'' True))))
     = ''[1, 2, 3]''"
proof -
  have "reachable E0 (transaction ''[1, 2, 3]'' True (onMount E0 (init ''[1, 2]'' True)))"
    by (intro reachable.edited reachable.mounted reachable.created) (simp add: init_def)
  then show ?thesis by (simp add: handleCompact_def run_simps spaced_values)
qed

end
